theory Spec2Isabelle
  imports Main
begin

section \<open>Cluster API provider for DataCrunch: the reconcilers\<close>

text \<open>
  A shallow embedding of the machine reconciler (\<open>reconcileNormal\<close>, \<open>reconcileDelete\<close>,
  \<open>findInstance\<close>, \<open>createInstance\<close>, \<open>getBootstrapData\<close>) and of the normal path of the
  cluster reconciler. Go mutates the object it is handed through a pointer; the model
  passes the object in and returns the mutated object in the outcome. Calls on the cloud
  client and recorded events are returned as lists, in the order they are made. Logging
  is left out.
\<close>

subsection \<open>Errors, results, conditions\<close>

text \<open>
  A Go \<open>error\<close> is identified with the text of its \<open>Error()\<close> method, which is all the
  reconciler ever reads of it. \<open>errors.Wrap(err, msg)\<close> yields the text
  \<open>msg + ": " + err.Error()\<close>.
\<close>

type_synonym err = string

definition Wrap :: "err \<Rightarrow> string \<Rightarrow> err" where
  "Wrap e msg = msg @ '': '' @ e"

text \<open>\<open>reconcile.Result\<close>; \<open>RequeueAfter\<close> is a \<open>time.Duration\<close>, in nanoseconds.\<close>

record Result =
  Requeue :: bool
  RequeueAfter :: int

definition Second :: int where
  "Second = 1000000000"

definition emptyResult :: Result where
  "emptyResult = \<lparr>Requeue = False, RequeueAfter = 0\<rparr>"

definition requeueAfter30s :: Result where
  "requeueAfter30s = \<lparr>Requeue = False, RequeueAfter = 30 * Second\<rparr>"

datatype ConditionStatus = ConditionTrue | ConditionFalse | ConditionUnknown

datatype ConditionSeverity =
  ConditionSeverityError | ConditionSeverityWarning | ConditionSeverityInfo | ConditionSeverityNone

text \<open>
  The message of a condition is \<open>fmt.Sprintf(messageFormat, messageArgs...)\<close>. The
  reconciler passes error texts and already rendered texts as the format, with no
  arguments, so the rendered message is kept symbolic: the format and its arguments.
\<close>

datatype message = Sprintf string "string list"

record Condition =
  cond_Status :: ConditionStatus
  cond_Severity :: ConditionSeverity
  cond_Reason :: string
  cond_Message :: message

text \<open>
  \<open>clusterv1.Conditions\<close> holds at most one condition of each type; the order of the
  slice and the transition times are not modelled, so it is a map from the condition type.
\<close>

type_synonym ConditionType = string
type_synonym Conditions = "ConditionType \<rightharpoonup> Condition"

definition TrueCondition :: Condition where
  "TrueCondition =
     \<lparr>cond_Status = ConditionTrue, cond_Severity = ConditionSeverityNone,
      cond_Reason = '''', cond_Message = Sprintf '''' []\<rparr>"

definition FalseCondition :: "string \<Rightarrow> ConditionSeverity \<Rightarrow> message \<Rightarrow> Condition" where
  "FalseCondition reason severity msg =
     \<lparr>cond_Status = ConditionFalse, cond_Severity = severity,
      cond_Reason = reason, cond_Message = msg\<rparr>"

definition NetworkInfrastructureReadyCondition :: ConditionType where
  "NetworkInfrastructureReadyCondition = ''NetworkInfrastructureReady''"

definition LoadBalancerReadyCondition :: ConditionType where
  "LoadBalancerReadyCondition = ''LoadBalancerReady''"

definition InstanceReadyCondition :: ConditionType where
  "InstanceReadyCondition = ''InstanceReady''"

definition DataCrunchClientFailedReason :: string where
  "DataCrunchClientFailedReason = ''DataCrunchClientFailed''"

definition NetworkReconciliationFailedReason :: string where
  "NetworkReconciliationFailedReason = ''NetworkReconciliationFailed''"

definition LoadBalancerReconciliationFailedReason :: string where
  "LoadBalancerReconciliationFailedReason = ''LoadBalancerReconciliationFailed''"

definition WaitingForClusterInfrastructureReason :: string where
  "WaitingForClusterInfrastructureReason = ''WaitingForClusterInfrastructure''"

definition WaitingForBootstrapDataReason :: string where
  "WaitingForBootstrapDataReason = ''WaitingForBootstrapData''"

definition InstanceCreationFailedReason :: string where
  "InstanceCreationFailedReason = ''InstanceCreationFailed''"

definition InstanceNotReadyReason :: string where
  "InstanceNotReadyReason = ''InstanceNotReady''"

definition InstanceTerminatedReason :: string where
  "InstanceTerminatedReason = ''InstanceTerminated''"

definition MachineFinalizer :: string where
  "MachineFinalizer = ''datacrunchmachine.infrastructure.cluster.x-k8s.io''"

definition ClusterFinalizer :: string where
  "ClusterFinalizer = ''datacrunchcluster.infrastructure.cluster.x-k8s.io''"

text \<open>\<open>capierrors.UpdateMachineError\<close>, a \<open>MachineStatusError\<close> (a string).\<close>

definition UpdateMachineError :: string where
  "UpdateMachineError = ''UpdateError''"

subsection \<open>Finalizers (controllerutil)\<close>

definition ContainsFinalizer :: "string list \<Rightarrow> string \<Rightarrow> bool" where
  "ContainsFinalizer fs f = (f \<in> set fs)"

definition AddFinalizer :: "string list \<Rightarrow> string \<Rightarrow> string list" where
  "AddFinalizer fs f = (if f \<in> set fs then fs else fs @ [f])"

definition RemoveFinalizer :: "string list \<Rightarrow> string \<Rightarrow> string list" where
  "RemoveFinalizer fs f = filter (\<lambda>g. g \<noteq> f) fs"

subsection \<open>The cloud client (package cloud)\<close>

record Instance =
  inst_ID :: string
  inst_Name :: string
  inst_State :: string
  inst_InstanceType :: string
  inst_ImageID :: string
  inst_PublicIP :: string
  inst_PrivateIP :: string
  inst_SSHKeyName :: string
  inst_CreatedAt :: string
  inst_Region :: string

text \<open>A Go map may be \<open>nil\<close>: \<open>None\<close>.\<close>

record InstanceSpec =
  spec_Name :: string
  spec_InstanceType :: string
  spec_ImageID :: string
  spec_SSHKeyName :: string
  spec_UserData :: string
  spec_Metadata :: "(string \<rightharpoonup> string) option"
  spec_Tags :: "(string \<rightharpoonup> string) option"
  spec_PublicIP :: bool

text \<open>
  The methods of \<open>cloud.Client\<close> the reconcilers call. A method returning
  \<open>(*Instance, error)\<close> returns either an error or an instance, as every method of
  \<open>datacrunch.Client\<close> does. One reconcile calls each method at most once, so the answers
  of the provider are functions of the arguments.
\<close>

record Client =
  CreateInstance :: "InstanceSpec \<Rightarrow> err + Instance"
  GetInstance :: "string \<Rightarrow> err + Instance"
  DeleteInstance :: "string \<Rightarrow> err option"
  StartInstance :: "string \<Rightarrow> err option"

text \<open>A call made on the client, with what it returned.\<close>

datatype cloud_call =
    CreateInstanceCall InstanceSpec "err + Instance"
  | GetInstanceCall string "err + Instance"
  | DeleteInstanceCall string "err option"
  | StartInstanceCall string "err option"

text \<open>The instance a call handed back to the reconciler, if it did.\<close>

fun returned :: "cloud_call \<Rightarrow> Instance option" where
  "returned (CreateInstanceCall _ (Inr i)) = Some i"
| "returned (GetInstanceCall _ (Inr i)) = Some i"
| "returned _ = None"

definition observed :: "cloud_call list \<Rightarrow> Instance list" where
  "observed cs = List.map_filter returned cs"

text \<open>
  \<open>GetInstance\<close> of \<open>datacrunch.Client\<close> (client.go), as a function of the outcome of
  the HTTP request: an error of \<open>makeRequest\<close>, or the status code with the decoded body
  (a decoding error or the instance data, which has no region).
\<close>

definition StatusOK :: nat where
  "StatusOK = 200"

definition StatusNotFound :: nat where
  "StatusNotFound = 404"

text \<open>The verb \<open>%d\<close> on a status code: its decimal digits.\<close>

fun decimal :: "nat \<Rightarrow> string" where
  "decimal n =
     (if n < 10 then [char_of (48 + n)] else decimal (n div 10) @ [char_of (48 + n mod 10)])"

definition datacrunch_GetInstance :: "(string \<Rightarrow> err + nat \<times> (err + Instance)) \<Rightarrow> string \<Rightarrow> err + Instance" where
  "datacrunch_GetInstance makeRequest instanceID =
     (case makeRequest (''/instances/'' @ instanceID) of
        Inl e \<Rightarrow> Inl (''failed to get instance: '' @ e)
      | Inr (statusCode, body) \<Rightarrow>
          if statusCode = StatusNotFound then Inl (''instance not found: '' @ instanceID)
          else if statusCode \<noteq> StatusOK then Inl (''failed to get instance, status: '' @ decimal statusCode)
          else (case body of
                  Inl e \<Rightarrow> Inl (''failed to decode instance response: '' @ e)
                | Inr instanceData \<Rightarrow> Inr (instanceData\<lparr>inst_Region := []\<rparr>)))"

subsection \<open>The objects of the store\<close>

text \<open>
  \<open>DataCrunchMachine\<close> (api/v1beta1) with the fields of its metadata, spec and status
  that the reconciler reads or writes. A pointer field is an option.
\<close>

record MachineAddress =
  addr_Type :: string
  addr_Address :: string

definition MachineHostName :: string where
  "MachineHostName = ''Hostname''"

definition MachineExternalIP :: string where
  "MachineExternalIP = ''ExternalIP''"

definition MachineInternalIP :: string where
  "MachineInternalIP = ''InternalIP''"

record DataCrunchMachineSpec =
  InstanceType :: string
  Image :: string
  SSHKeyName :: string
  ProviderID :: "string option"
  AdditionalMetadata :: "(string \<rightharpoonup> string) option"
  AdditionalTags :: "(string \<rightharpoonup> string) option"
  PublicIP :: "bool option"

record DataCrunchMachineStatus =
  Ready :: bool
  Addresses :: "MachineAddress list"
  InstanceState :: "string option"
  Conditions :: Conditions
  FailureReason :: "string option"
  FailureMessage :: "string option"

record DataCrunchMachine =
  Name :: string
  Namespace :: string
  Finalizers :: "string list"
  Spec :: DataCrunchMachineSpec
  Status :: DataCrunchMachineStatus

text \<open>\<open>clusterv1.Machine\<close> and \<open>clusterv1.Cluster\<close>, the owner objects, read only.\<close>

record Machine =
  machine_Name :: string
  machine_Namespace :: string
  machine_DataSecretName :: "string option"

record Cluster =
  cluster_Name :: string
  cluster_InfrastructureReady :: bool

text \<open>
  \<open>base64.StdEncoding.EncodeToString\<close> of the standard library (RFC 4648, with
  padding), on the bytes of the string.
\<close>

definition encodeStd :: string where
  "encodeStd = ''ABCDEFGHIJKLMNOPQRSTUVWXYZabcdefghijklmnopqrstuvwxyz0123456789+/''"

fun encodeBytes :: "nat list \<Rightarrow> string" where
  "encodeBytes [] = []"
| "encodeBytes [a] =
     [encodeStd ! (a div 4), encodeStd ! ((a mod 4) * 16), CHR ''='', CHR ''='']"
| "encodeBytes [a, b] =
     [encodeStd ! (a div 4), encodeStd ! ((a mod 4) * 16 + b div 16),
      encodeStd ! ((b mod 16) * 4), CHR ''='']"
| "encodeBytes (a # b # c # rest) =
     [encodeStd ! (a div 4), encodeStd ! ((a mod 4) * 16 + b div 16),
      encodeStd ! ((b mod 16) * 4 + c div 64), encodeStd ! (c mod 64)] @ encodeBytes rest"

definition EncodeToString :: "string \<Rightarrow> string" where
  "EncodeToString src = encodeBytes (map of_char src)"

text \<open>
  What the reconciler reads from outside the objects it is handed: the secret store behind
  \<open>r.Get\<close>, from the namespace and name of a secret to its data, or an error.
\<close>

record Env =
  getSecret :: "string \<times> string \<Rightarrow> err + (string \<rightharpoonup> string)"

record Event =
  ev_Type :: string
  ev_Reason :: string
  ev_Message :: string

definition EventTypeNormal :: string where
  "EventTypeNormal = ''Normal''"

text \<open>
  What one call of a reconcile function leaves behind: the returned
  \<open>(reconcile.Result, error)\<close>, the object as mutated, the calls made on the cloud client
  and the events recorded.
\<close>

record 'o outcome =
  res :: Result
  err :: "err option"
  obj :: 'o
  calls :: "cloud_call list"
  events :: "Event list"

subsection \<open>Conditions on a machine (util/conditions)\<close>

definition MarkTrue :: "DataCrunchMachine \<Rightarrow> ConditionType \<Rightarrow> DataCrunchMachine" where
  "MarkTrue m t = m\<lparr>Status := (Status m)\<lparr>Conditions := (Conditions (Status m))(t \<mapsto> TrueCondition)\<rparr>\<rparr>"

definition MarkFalse ::
  "DataCrunchMachine \<Rightarrow> ConditionType \<Rightarrow> string \<Rightarrow> ConditionSeverity \<Rightarrow> message \<Rightarrow> DataCrunchMachine" where
  "MarkFalse m t reason severity msg =
     m\<lparr>Status := (Status m)\<lparr>Conditions := (Conditions (Status m))(t \<mapsto> FalseCondition reason severity msg)\<rparr>\<rparr>"

subsection \<open>The machine reconciler\<close>

text \<open>
  \<open>findInstance\<close>: the returned \<open>(*cloud.Instance, error)\<close> and the calls made.
  \<open>len\<close> and the slice \<open>[13:]\<close> count bytes, as \<open>length\<close> and \<open>drop\<close> do on a string.
\<close>

definition findInstance ::
  "Client \<Rightarrow> DataCrunchMachine \<Rightarrow> (Instance option \<times> err option) \<times> cloud_call list" where
  "findInstance dataCrunchClient dataCrunchMachine =
     (case ProviderID (Spec dataCrunchMachine) of
        Some providerID \<Rightarrow>
          (let instanceID = (if length providerID > 13 then drop 13 providerID else '''') in
           if instanceID \<noteq> '''' then
             (case GetInstance dataCrunchClient instanceID of
                Inl e \<Rightarrow>
                  if e = ''instance not found: '' @ instanceID
                  then ((None, None), [GetInstanceCall instanceID (Inl e)])
                  else ((None, Some e), [GetInstanceCall instanceID (Inl e)])
              | Inr instance \<Rightarrow> ((Some instance, None), [GetInstanceCall instanceID (Inr instance)]))
           else ((None, None), []))
      | None \<Rightarrow> ((None, None), []))"

definition getBootstrapData :: "Env \<Rightarrow> Machine \<Rightarrow> err + string" where
  "getBootstrapData r machine =
     (case machine_DataSecretName machine of
        None \<Rightarrow>
          Inl (''error retrieving bootstrap data: linked Machine'' @ [CHR 0x27] @
               ''s bootstrap.dataSecretName is nil'')
      | Some secretName \<Rightarrow>
          (case getSecret r (machine_Namespace machine, secretName) of
             Inl e \<Rightarrow>
               Inl (Wrap e (''failed to retrieve bootstrap data secret for DataCrunchMachine '' @
                            machine_Namespace machine @ ''/'' @ machine_Name machine))
           | Inr secretData \<Rightarrow>
               (case secretData ''value'' of
                  None \<Rightarrow> Inl ''error retrieving bootstrap data: secret value key is missing''
                | Some v \<Rightarrow> Inr (EncodeToString v))))"

text \<open>
  \<open>createInstance\<close>. \<open>instanceSpec.Tags\<close> is the map object of
  \<open>Spec.AdditionalTags\<close> when that is not \<open>nil\<close>, so the two stores into
  \<open>instanceSpec.Tags\<close> are stores into the machine's \<open>AdditionalTags\<close> as well: the machine
  is returned too.
\<close>

definition createInstance ::
  "Env \<Rightarrow> Client \<Rightarrow> Machine \<Rightarrow> DataCrunchMachine \<Rightarrow> Cluster \<Rightarrow>
   (err + Instance) \<times> DataCrunchMachine \<times> cloud_call list" where
  "createInstance r dataCrunchClient machine dataCrunchMachine cluster =
     (case getBootstrapData r machine of
        Inl e \<Rightarrow> (Inl (Wrap e ''failed to get bootstrap data''), dataCrunchMachine, [])
      | Inr userData \<Rightarrow>
          (let spec = Spec dataCrunchMachine;
               tags = (case AdditionalTags spec of None \<Rightarrow> Map.empty | Some t \<Rightarrow> t);
               tags' = tags(''cluster.x-k8s.io/cluster-name'' \<mapsto> cluster_Name cluster,
                            ''cluster.x-k8s.io/machine-name'' \<mapsto> machine_Name machine);
               dataCrunchMachine' =
                 (case AdditionalTags spec of
                    None \<Rightarrow> dataCrunchMachine
                  | Some _ \<Rightarrow> dataCrunchMachine\<lparr>Spec := spec\<lparr>AdditionalTags := Some tags'\<rparr>\<rparr>);
               instanceSpec =
                 \<lparr>spec_Name = Name dataCrunchMachine,
                  spec_InstanceType = InstanceType spec,
                  spec_ImageID = (if Image spec = '''' then ''ubuntu-22.04-cuda-12.1'' else Image spec),
                  spec_SSHKeyName = SSHKeyName spec,
                  spec_UserData = userData,
                  spec_Metadata = AdditionalMetadata spec,
                  spec_Tags = Some tags',
                  spec_PublicIP = (PublicIP spec = Some True)\<rparr>
           in (case CreateInstance dataCrunchClient instanceSpec of
                 Inl e \<Rightarrow>
                   (Inl (Wrap e ''failed to create DataCrunch instance''), dataCrunchMachine',
                    [CreateInstanceCall instanceSpec (Inl e)])
               | Inr instance \<Rightarrow>
                   (Inr instance, dataCrunchMachine',
                    [CreateInstanceCall instanceSpec (Inr instance)]))))"

text \<open>
  The end of \<open>reconcileNormal\<close>, from the stamping of the provider ID on: what is done
  with the instance once it is at hand. \<open>cs\<close> and \<open>es\<close> are the calls and events so far.
\<close>

definition reconcileInstance ::
  "Client \<Rightarrow> Instance \<Rightarrow> DataCrunchMachine \<Rightarrow> cloud_call list \<Rightarrow> Event list \<Rightarrow>
   DataCrunchMachine outcome" where
  "reconcileInstance dataCrunchClient instance dataCrunchMachine cs es =
     (let m1 = (if ProviderID (Spec dataCrunchMachine) = None
                then dataCrunchMachine\<lparr>Spec := (Spec dataCrunchMachine)
                       \<lparr>ProviderID := Some (''datacrunch://'' @ inst_ID instance)\<rparr>\<rparr>
                else dataCrunchMachine);
          m2 = m1\<lparr>Status := (Status m1)\<lparr>InstanceState := Some (inst_State instance)\<rparr>\<rparr>
      in if inst_State instance = ''running'' then
           (let m3 = m2\<lparr>Status := (Status m2)\<lparr>Ready := True\<rparr>\<rparr>;
                m4 = MarkTrue m3 InstanceReadyCondition;
                a1 = [\<lparr>addr_Type = MachineHostName, addr_Address = inst_Name instance\<rparr>];
                a2 = (if inst_PrivateIP instance \<noteq> ''''
                      then a1 @ [\<lparr>addr_Type = MachineInternalIP, addr_Address = inst_PrivateIP instance\<rparr>]
                      else a1);
                a3 = (if inst_PublicIP instance \<noteq> ''''
                      then a2 @ [\<lparr>addr_Type = MachineExternalIP, addr_Address = inst_PublicIP instance\<rparr>]
                      else a2)
            in \<lparr>res = emptyResult, err = None,
                obj = m4\<lparr>Status := (Status m4)\<lparr>Addresses := a3\<rparr>\<rparr>,
                calls = cs, events = es\<rparr>)
         else if inst_State instance = ''pending'' then
           \<lparr>res = requeueAfter30s, err = None,
            obj = MarkFalse m2 InstanceReadyCondition InstanceNotReadyReason ConditionSeverityInfo
                    (Sprintf ''Instance is pending'' []),
            calls = cs, events = es\<rparr>
         else if inst_State instance = ''stopped'' then
           (case StartInstance dataCrunchClient (inst_ID instance) of
              Some e \<Rightarrow>
                \<lparr>res = requeueAfter30s, err = Some e, obj = m2,
                 calls = cs @ [StartInstanceCall (inst_ID instance) (Some e)], events = es\<rparr>
            | None \<Rightarrow>
                \<lparr>res = requeueAfter30s, err = None, obj = m2,
                 calls = cs @ [StartInstanceCall (inst_ID instance) None], events = es\<rparr>)
         else if inst_State instance = ''terminated'' then
           (let m3 = m2\<lparr>Status := (Status m2)
                       \<lparr>FailureReason := Some UpdateMachineError,
                        FailureMessage := Some ''Instance was terminated''\<rparr>\<rparr>
            in \<lparr>res = emptyResult, err = None,
                obj = MarkFalse m3 InstanceReadyCondition InstanceTerminatedReason ConditionSeverityError
                        (Sprintf ''Instance was terminated'' []),
                calls = cs, events = es\<rparr>)
         else
           \<lparr>res = requeueAfter30s, err = None,
            obj = MarkFalse m2 InstanceReadyCondition InstanceNotReadyReason ConditionSeverityWarning
                    (Sprintf (''Instance is in unknown state: '' @ inst_State instance) []),
            calls = cs, events = es\<rparr>)"

text \<open>
  \<open>reconcileNormal\<close>. \<open>newClient\<close> is what \<open>r.createDataCrunchClient(ctx, cluster)\<close>
  returned: an error (and no client) or a client.
\<close>

definition reconcileNormal ::
  "Env \<Rightarrow> err + Client \<Rightarrow> Machine \<Rightarrow> DataCrunchMachine \<Rightarrow> Cluster \<Rightarrow> DataCrunchMachine outcome" where
  "reconcileNormal r newClient machine dataCrunchMachine cluster =
     (if FailureReason (Status dataCrunchMachine) \<noteq> None \<or>
         FailureMessage (Status dataCrunchMachine) \<noteq> None then
        \<lparr>res = emptyResult, err = None, obj = dataCrunchMachine, calls = [], events = []\<rparr>
      else if \<not> ContainsFinalizer (Finalizers dataCrunchMachine) MachineFinalizer then
        \<lparr>res = emptyResult, err = None,
         obj = dataCrunchMachine
                 \<lparr>Finalizers := AddFinalizer (Finalizers dataCrunchMachine) MachineFinalizer\<rparr>,
         calls = [], events = []\<rparr>
      else if \<not> cluster_InfrastructureReady cluster then
        \<lparr>res = emptyResult, err = None,
         obj = MarkFalse dataCrunchMachine InstanceReadyCondition
                 WaitingForClusterInfrastructureReason ConditionSeverityInfo (Sprintf '''' []),
         calls = [], events = []\<rparr>
      else if machine_DataSecretName machine = None then
        \<lparr>res = emptyResult, err = None,
         obj = MarkFalse dataCrunchMachine InstanceReadyCondition
                 WaitingForBootstrapDataReason ConditionSeverityInfo (Sprintf '''' []),
         calls = [], events = []\<rparr>
      else
        (case newClient of
           Inl e \<Rightarrow>
             \<lparr>res = emptyResult, err = Some e,
              obj = MarkFalse dataCrunchMachine InstanceReadyCondition
                      DataCrunchClientFailedReason ConditionSeverityError (Sprintf e []),
              calls = [], events = []\<rparr>
         | Inr dataCrunchClient \<Rightarrow>
             (case findInstance dataCrunchClient dataCrunchMachine of
                ((_, Some e), cs) \<Rightarrow>
                  \<lparr>res = emptyResult, err = Some e, obj = dataCrunchMachine, calls = cs, events = []\<rparr>
              | ((Some instance, None), cs) \<Rightarrow>
                  reconcileInstance dataCrunchClient instance dataCrunchMachine cs []
              | ((None, None), cs) \<Rightarrow>
                  (case createInstance r dataCrunchClient machine dataCrunchMachine cluster of
                     (Inl e, m', cs') \<Rightarrow>
                       \<lparr>res = emptyResult, err = Some e,
                        obj = MarkFalse m' InstanceReadyCondition
                                InstanceCreationFailedReason ConditionSeverityError (Sprintf e []),
                        calls = cs @ cs', events = []\<rparr>
                   | (Inr instance, m', cs') \<Rightarrow>
                       reconcileInstance dataCrunchClient instance
                         (MarkFalse m' InstanceReadyCondition
                            InstanceNotReadyReason ConditionSeverityInfo (Sprintf '''' []))
                         (cs @ cs')
                         [\<lparr>ev_Type = EventTypeNormal, ev_Reason = ''InstanceCreated'',
                           ev_Message = ''Created new DataCrunch instance '' @ inst_ID instance\<rparr>]))))"

text \<open>\<open>reconcileDelete\<close>, with \<open>newClient\<close> as in \<open>reconcileNormal\<close>.\<close>

definition reconcileDelete ::
  "err + Client \<Rightarrow> DataCrunchMachine \<Rightarrow> DataCrunchMachine outcome" where
  "reconcileDelete newClient dataCrunchMachine =
     (let removed =
            dataCrunchMachine
              \<lparr>Finalizers := RemoveFinalizer (Finalizers dataCrunchMachine) MachineFinalizer\<rparr>
      in case newClient of
           Inl _ \<Rightarrow> \<lparr>res = emptyResult, err = None, obj = removed, calls = [], events = []\<rparr>
         | Inr dataCrunchClient \<Rightarrow>
             (case findInstance dataCrunchClient dataCrunchMachine of
                ((_, Some e), cs) \<Rightarrow>
                  \<lparr>res = emptyResult, err = None, obj = removed, calls = cs, events = []\<rparr>
              | ((None, None), cs) \<Rightarrow>
                  \<lparr>res = emptyResult, err = None, obj = removed, calls = cs, events = []\<rparr>
              | ((Some instance, None), cs) \<Rightarrow>
                  (case DeleteInstance dataCrunchClient (inst_ID instance) of
                     Some e \<Rightarrow>
                       \<lparr>res = requeueAfter30s, err = Some e, obj = dataCrunchMachine,
                        calls = cs @ [DeleteInstanceCall (inst_ID instance) (Some e)], events = []\<rparr>
                   | None \<Rightarrow>
                       \<lparr>res = emptyResult, err = None, obj = removed,
                        calls = cs @ [DeleteInstanceCall (inst_ID instance) None],
                        events = [\<lparr>ev_Type = EventTypeNormal, ev_Reason = ''InstanceDeleted'',
                                   ev_Message = ''Deleted DataCrunch instance '' @ inst_ID instance\<rparr>]\<rparr>)))"

text \<open>
  \<open>createDataCrunchClient\<close> of both reconcilers wraps \<open>datacrunch.NewClient\<close> and never
  returns an error. The reconcilers handle an error from it all the same, so they are
  modelled for every \<open>newClient\<close>, this one included.
\<close>

definition createDataCrunchClient :: "Client \<Rightarrow> err + Client" where
  "createDataCrunchClient datacrunchClient = Inr datacrunchClient"

text \<open>
  The dispatcher invokes \<open>reconcileNormal\<close> again and again on the object the previous
  invocation left (and the patch persisted), each time with whatever the owner objects,
  the secrets and the provider are by then. \<open>reconcileNormalRepeat\<close> is a run of such
  invocations and the outcome of each.
\<close>

type_synonym surroundings = "Env \<times> (err + Client) \<times> Machine \<times> Cluster"

fun reconcileNormalRepeat ::
  "surroundings list \<Rightarrow> DataCrunchMachine \<Rightarrow> DataCrunchMachine outcome list" where
  "reconcileNormalRepeat [] dataCrunchMachine = []"
| "reconcileNormalRepeat ((r, newClient, machine, cluster) # rest) dataCrunchMachine =
     (let out = reconcileNormal r newClient machine dataCrunchMachine cluster
      in out # reconcileNormalRepeat rest (obj out))"


subsection \<open>The cluster reconciler\<close>

record APIEndpoint =
  Host :: string
  Port :: int

definition IsZero :: "APIEndpoint \<Rightarrow> bool" where
  "IsZero v = (Host v = '''' \<and> Port v = 0)"

record FailureDomainSpec =
  ControlPlane :: bool
  Attributes :: "(string \<rightharpoonup> string) option"

record DataCrunchVPCStatus =
  vpc_ID :: string
  vpc_CidrBlock :: string
  vpc_State :: string

record DataCrunchSubnetStatus =
  subnet_ID :: string
  subnet_CidrBlock :: string
  subnet_AvailabilityZone :: string
  subnet_State :: string

record DataCrunchNetworkStatus =
  VPC :: "DataCrunchVPCStatus option"
  Subnets :: "DataCrunchSubnetStatus list"

record DataCrunchLoadBalancerStatus =
  lb_ID :: string
  lb_DNSName :: string
  lb_State :: string

record DataCrunchClusterSpec =
  Region :: string
  ControlPlaneEndpoint :: APIEndpoint

record DataCrunchClusterStatus =
  dcc_Ready :: bool
  dcc_Conditions :: Conditions
  FailureDomains :: "(string \<rightharpoonup> FailureDomainSpec) option"
  Network :: "DataCrunchNetworkStatus option"
  LoadBalancer :: "DataCrunchLoadBalancerStatus option"

record DataCrunchCluster =
  dcc_Finalizers :: "string list"
  dcc_Spec :: DataCrunchClusterSpec
  dcc_Status :: DataCrunchClusterStatus

definition dcc_MarkTrue :: "DataCrunchCluster \<Rightarrow> ConditionType \<Rightarrow> DataCrunchCluster" where
  "dcc_MarkTrue c t =
     c\<lparr>dcc_Status := (dcc_Status c)\<lparr>dcc_Conditions := (dcc_Conditions (dcc_Status c))(t \<mapsto> TrueCondition)\<rparr>\<rparr>"

definition dcc_MarkFalse ::
  "DataCrunchCluster \<Rightarrow> ConditionType \<Rightarrow> string \<Rightarrow> ConditionSeverity \<Rightarrow> message \<Rightarrow> DataCrunchCluster" where
  "dcc_MarkFalse c t reason severity msg =
     c\<lparr>dcc_Status := (dcc_Status c)
         \<lparr>dcc_Conditions := (dcc_Conditions (dcc_Status c))(t \<mapsto> FalseCondition reason severity msg)\<rparr>\<rparr>"

text \<open>The two sub-reconciliations: the cluster object as mutated and the returned error.\<close>

definition reconcileNetwork :: "Client \<Rightarrow> DataCrunchCluster \<Rightarrow> DataCrunchCluster \<times> err option" where
  "reconcileNetwork dataCrunchClient dataCrunchCluster =
     (let c1 = (if Network (dcc_Status dataCrunchCluster) = None
                then dataCrunchCluster\<lparr>dcc_Status := (dcc_Status dataCrunchCluster)
                       \<lparr>Network := Some \<lparr>VPC = None, Subnets = []\<rparr>\<rparr>\<rparr>
                else dataCrunchCluster);
          c2 = (if FailureDomains (dcc_Status c1) = None
                then c1\<lparr>dcc_Status := (dcc_Status c1)
                       \<lparr>FailureDomains :=
                          Some [''default'' \<mapsto> \<lparr>ControlPlane = True, Attributes = None\<rparr>]\<rparr>\<rparr>
                else c1)
      in (c2, None))"

definition reconcileLoadBalancer ::
  "Client \<Rightarrow> Cluster \<Rightarrow> DataCrunchCluster \<Rightarrow> DataCrunchCluster \<times> err option" where
  "reconcileLoadBalancer dataCrunchClient cluster dataCrunchCluster =
     (if \<not> IsZero (ControlPlaneEndpoint (dcc_Spec dataCrunchCluster)) then (dataCrunchCluster, None)
      else
        (dataCrunchCluster\<lparr>dcc_Spec := (dcc_Spec dataCrunchCluster)
           \<lparr>ControlPlaneEndpoint :=
              \<lparr>Host = ''cluster-'' @ cluster_Name cluster @ ''.datacrunch.local'', Port = 6443\<rparr>\<rparr>\<rparr>,
         None))"

text \<open>
  The body of the cluster reconciler's \<open>reconcileNormal\<close>, with the two sub-reconciliations
  it calls as parameters \<open>network\<close> and \<open>loadBalancer\<close>; \<open>cluster_reconcileNormal\<close> is the
  function of the source, which calls \<open>reconcileNetwork\<close> and \<open>reconcileLoadBalancer\<close>.
\<close>

definition cluster_reconcileNormal_body ::
  "(Client \<Rightarrow> DataCrunchCluster \<Rightarrow> DataCrunchCluster \<times> err option) \<Rightarrow>
   (Client \<Rightarrow> Cluster \<Rightarrow> DataCrunchCluster \<Rightarrow> DataCrunchCluster \<times> err option) \<Rightarrow>
   err + Client \<Rightarrow> Cluster \<Rightarrow> DataCrunchCluster \<Rightarrow> DataCrunchCluster outcome" where
  "cluster_reconcileNormal_body network loadBalancer newClient cluster dataCrunchCluster =
     (if \<not> ContainsFinalizer (dcc_Finalizers dataCrunchCluster) ClusterFinalizer then
        \<lparr>res = emptyResult, err = None,
         obj = dataCrunchCluster
                 \<lparr>dcc_Finalizers := AddFinalizer (dcc_Finalizers dataCrunchCluster) ClusterFinalizer\<rparr>,
         calls = [], events = []\<rparr>
      else
        (case newClient of
           Inl e \<Rightarrow>
             \<lparr>res = emptyResult, err = Some e,
              obj = dcc_MarkFalse dataCrunchCluster NetworkInfrastructureReadyCondition
                      DataCrunchClientFailedReason ConditionSeverityError (Sprintf e []),
              calls = [], events = []\<rparr>
         | Inr dataCrunchClient \<Rightarrow>
             (case network dataCrunchClient dataCrunchCluster of
                (c1, Some e) \<Rightarrow>
                  \<lparr>res = requeueAfter30s, err = Some e,
                   obj = dcc_MarkFalse c1 NetworkInfrastructureReadyCondition
                           NetworkReconciliationFailedReason ConditionSeverityError (Sprintf e []),
                   calls = [], events = []\<rparr>
              | (c1, None) \<Rightarrow>
                  (case loadBalancer dataCrunchClient cluster c1 of
                     (c2, Some e) \<Rightarrow>
                       \<lparr>res = requeueAfter30s, err = Some e,
                        obj = dcc_MarkFalse c2 LoadBalancerReadyCondition
                                LoadBalancerReconciliationFailedReason ConditionSeverityError
                                (Sprintf e []),
                        calls = [], events = []\<rparr>
                   | (c2, None) \<Rightarrow>
                       \<lparr>res = emptyResult, err = None,
                        obj = dcc_MarkTrue (c2\<lparr>dcc_Status := (dcc_Status c2)\<lparr>dcc_Ready := True\<rparr>\<rparr>)
                                NetworkInfrastructureReadyCondition,
                        calls = [], events = []\<rparr>))))"

definition cluster_reconcileNormal ::
  "err + Client \<Rightarrow> Cluster \<Rightarrow> DataCrunchCluster \<Rightarrow> DataCrunchCluster outcome" where
  "cluster_reconcileNormal newClient cluster dataCrunchCluster =
     cluster_reconcileNormal_body reconcileNetwork reconcileLoadBalancer
       newClient cluster dataCrunchCluster"

subsection \<open>Example objects\<close>

text \<open>A provider that answers every lookup and creation with the same instance.\<close>

definition stubClient :: "Instance \<Rightarrow> Client" where
  "stubClient i =
     \<lparr>CreateInstance = (\<lambda>_. Inr i), GetInstance = (\<lambda>_. Inr i),
      DeleteInstance = (\<lambda>_. None), StartInstance = (\<lambda>_. None)\<rparr>"

text \<open>A provider every call on which fails with the same error.\<close>

definition failingClient :: "err \<Rightarrow> Client" where
  "failingClient e =
     \<lparr>CreateInstance = (\<lambda>_. Inl e), GetInstance = (\<lambda>_. Inl e),
      DeleteInstance = (\<lambda>_. Some e), StartInstance = (\<lambda>_. Some e)\<rparr>"

text \<open>A provider that finds the instance and then fails to delete or to start it.\<close>

definition stuckClient :: "Instance \<Rightarrow> err \<Rightarrow> Client" where
  "stuckClient i e =
     \<lparr>CreateInstance = (\<lambda>_. Inr i), GetInstance = (\<lambda>_. Inr i),
      DeleteInstance = (\<lambda>_. Some e), StartInstance = (\<lambda>_. Some e)\<rparr>"

definition exampleInstance :: "string \<Rightarrow> string \<Rightarrow> string \<Rightarrow> Instance" where
  "exampleInstance state privateIP publicIP =
     \<lparr>inst_ID = ''i-123'', inst_Name = ''test-machine'', inst_State = state,
      inst_InstanceType = ''1xH100.80G'', inst_ImageID = ''ubuntu-20.04'',
      inst_PublicIP = publicIP, inst_PrivateIP = privateIP, inst_SSHKeyName = '''',
      inst_CreatedAt = '''', inst_Region = ''''\<rparr>"

definition exampleStatus :: DataCrunchMachineStatus where
  "exampleStatus =
     \<lparr>Ready = False, Addresses = [], InstanceState = None, Conditions = Map.empty,
      FailureReason = None, FailureMessage = None\<rparr>"

text \<open>The machine of the reconciler's unit tests, with the finalizer and a provider ID.\<close>

definition exampleMachine :: "string option \<Rightarrow> DataCrunchMachine" where
  "exampleMachine providerID =
     \<lparr>Name = ''test-machine'', Namespace = ''default'', Finalizers = [MachineFinalizer],
      Spec = \<lparr>InstanceType = ''1xH100.80G'', Image = ''ubuntu-20.04'', SSHKeyName = '''',
               ProviderID = providerID, AdditionalMetadata = None, AdditionalTags = None,
               PublicIP = None\<rparr>,
      Status = exampleStatus\<rparr>"

text \<open>The same machine after a terminal failure was recorded.\<close>

definition failedMachine :: DataCrunchMachine where
  "failedMachine =
     (exampleMachine (Some ''datacrunch://i-123''))
       \<lparr>Status := exampleStatus\<lparr>FailureReason := Some UpdateMachineError\<rparr>\<rparr>"

definition exampleOwner :: Machine where
  "exampleOwner =
     \<lparr>machine_Name = ''test-machine'', machine_Namespace = ''default'',
      machine_DataSecretName = Some ''bootstrap''\<rparr>"

definition exampleCluster :: Cluster where
  "exampleCluster = \<lparr>cluster_Name = ''test-cluster'', cluster_InfrastructureReady = True\<rparr>"

definition exampleEnv :: Env where
  "exampleEnv = \<lparr>getSecret = (\<lambda>_. Inr [''value'' \<mapsto> ''foo''])\<rparr>"

definition exampleDataCrunchCluster :: DataCrunchCluster where
  "exampleDataCrunchCluster =
     \<lparr>dcc_Finalizers = [ClusterFinalizer],
      dcc_Spec = \<lparr>Region = ''us-east-1'', ControlPlaneEndpoint = \<lparr>Host = '''', Port = 0\<rparr>\<rparr>,
      dcc_Status = \<lparr>dcc_Ready = False, dcc_Conditions = Map.empty, FailureDomains = None,
                    Network = None, LoadBalancer = None\<rparr>\<rparr>"

text \<open>A sub-reconciliation that fails and leaves the cluster object alone.\<close>

definition failingNetwork :: "err \<Rightarrow> Client \<Rightarrow> DataCrunchCluster \<Rightarrow> DataCrunchCluster \<times> err option" where
  "failingNetwork e dataCrunchClient dataCrunchCluster = (dataCrunchCluster, Some e)"

definition failingLoadBalancer ::
  "err \<Rightarrow> Client \<Rightarrow> Cluster \<Rightarrow> DataCrunchCluster \<Rightarrow> DataCrunchCluster \<times> err option" where
  "failingLoadBalancer e dataCrunchClient cluster dataCrunchCluster = (dataCrunchCluster, Some e)"

section \<open>Properties\<close>

subsection \<open>Evaluation on the example objects\<close>

lemmas example_defs =
  stubClient_def failingClient_def stuckClient_def exampleInstance_def exampleStatus_def
  exampleMachine_def failedMachine_def exampleOwner_def exampleCluster_def exampleEnv_def

lemmas reconcile_defs =
  reconcileNormal_def reconcileDelete_def reconcileInstance_def findInstance_def
  createInstance_def getBootstrapData_def observed_def map_filter_def
  ContainsFinalizer_def AddFinalizer_def RemoveFinalizer_def MarkTrue_def MarkFalse_def
  Let_def

subsection \<open>What a lookup and a creation hand back\<close>

lemma observed_Nil: "observed [] = []"
  by (simp add: observed_def)

lemma observed_append: "observed (xs @ ys) = observed xs @ observed ys"
  by (simp add: observed_def map_filter_def)

lemma observed_single: "observed [c] = (case returned c of None \<Rightarrow> [] | Some i \<Rightarrow> [i])"
  by (simp add: observed_def map_filter_def split: option.splits)

lemma findInstance_None:
  "ProviderID (Spec m) = None \<Longrightarrow> findInstance cl m = ((None, None), [])"
  by (simp add: findInstance_def)

lemma findInstance_short:
  "ProviderID (Spec m) = Some p \<Longrightarrow> length p \<le> 13 \<Longrightarrow> findInstance cl m = ((None, None), [])"
  by (simp add: findInstance_def)

lemma findInstance_long:
  "ProviderID (Spec m) = Some p \<Longrightarrow> 13 < length p \<Longrightarrow>
   findInstance cl m =
     (case GetInstance cl (drop 13 p) of
        Inl e \<Rightarrow> if e = ''instance not found: '' @ drop 13 p
                 then ((None, None), [GetInstanceCall (drop 13 p) (Inl e)])
                 else ((None, Some e), [GetInstanceCall (drop 13 p) (Inl e)])
      | Inr i \<Rightarrow> ((Some i, None), [GetInstanceCall (drop 13 p) (Inr i)]))"
  by (simp add: findInstance_def Let_def)

lemma findInstance_found:
  "findInstance cl m = ((Some i, None), cs) \<Longrightarrow> observed cs = [i]"
  by (auto simp: findInstance_def Let_def observed_single split: option.splits sum.splits if_splits)

lemma findInstance_absent:
  "findInstance cl m = ((None, x), cs) \<Longrightarrow> observed cs = []"
  by (auto simp: findInstance_def Let_def observed_single observed_Nil
      split: option.splits sum.splits if_splits)

lemma findInstance_never_both:
  "findInstance cl m \<noteq> ((Some i, Some e), cs)"
  by (auto simp: findInstance_def Let_def split: option.splits sum.splits if_splits)

lemma createInstance_Inr:
  "createInstance r cl machine m cluster = (Inr i, m', cs) \<Longrightarrow>
   observed cs = [i] \<and> ProviderID (Spec m') = ProviderID (Spec m) \<and> Status m' = Status m \<and>
   Finalizers m' = Finalizers m"
  by (auto simp: createInstance_def Let_def observed_single split: option.splits sum.splits)

lemma createInstance_Inl:
  "createInstance r cl machine m cluster = (Inl e, m', cs) \<Longrightarrow>
   observed cs = [] \<and> ProviderID (Spec m') = ProviderID (Spec m) \<and> Status m' = Status m \<and>
   Finalizers m' = Finalizers m"
  by (auto simp: createInstance_def Let_def observed_single observed_Nil split: option.splits sum.splits)

lemma createInstance_calls:
  "getBootstrapData r machine = Inr userData \<Longrightarrow>
   \<exists>spec. snd (snd (createInstance r cl machine m cluster)) =
            [CreateInstanceCall spec (CreateInstance cl spec)] \<and>
          spec_Name spec = Name m \<and> spec_UserData spec = userData"
  by (auto simp: createInstance_def Let_def split: sum.splits)

subsection \<open>The branches on the instance state\<close>

lemma reconcileInstance_observed:
  "observed (calls (reconcileInstance cl i m cs es)) = observed cs"
  by (auto simp: reconcileInstance_def Let_def observed_append observed_single split: option.splits)

lemma reconcileInstance_calls:
  "\<exists>rest. calls (reconcileInstance cl i m cs es) = cs @ rest"
  by (auto simp: reconcileInstance_def Let_def split: option.splits)


lemma reconcileInstance_running:
  assumes "inst_State i = ''running''"
  shows "reconcileInstance cl i m cs es =
     \<lparr>res = emptyResult, err = None,
      obj = m\<lparr>Spec := (Spec m)\<lparr>ProviderID :=
                 (case ProviderID (Spec m) of None \<Rightarrow> Some (''datacrunch://'' @ inst_ID i)
                  | Some p \<Rightarrow> Some p)\<rparr>,
               Status := (Status m)
                 \<lparr>Ready := True,
                  Addresses :=
                    [\<lparr>addr_Type = MachineHostName, addr_Address = inst_Name i\<rparr>] @
                    (if inst_PrivateIP i \<noteq> ''''
                     then [\<lparr>addr_Type = MachineInternalIP, addr_Address = inst_PrivateIP i\<rparr>]
                     else []) @
                    (if inst_PublicIP i \<noteq> ''''
                     then [\<lparr>addr_Type = MachineExternalIP, addr_Address = inst_PublicIP i\<rparr>]
                     else []),
                  InstanceState := Some ''running'',
                  Conditions := (Conditions (Status m))(InstanceReadyCondition \<mapsto> TrueCondition)\<rparr>\<rparr>,
      calls = cs, events = es\<rparr>"
  using assms
  by (cases "ProviderID (Spec m)") (simp_all add: reconcileInstance_def Let_def MarkTrue_def)


lemma reconcileInstance_stopped:
  assumes "inst_State i = ''stopped''"
  shows "reconcileInstance cl i m cs es =
     \<lparr>res = requeueAfter30s, err = StartInstance cl (inst_ID i),
      obj = m\<lparr>Spec := (Spec m)\<lparr>ProviderID :=
                 (case ProviderID (Spec m) of None \<Rightarrow> Some (''datacrunch://'' @ inst_ID i)
                  | Some p \<Rightarrow> Some p)\<rparr>,
               Status := (Status m)\<lparr>InstanceState := Some ''stopped''\<rparr>\<rparr>,
      calls = cs @ [StartInstanceCall (inst_ID i) (StartInstance cl (inst_ID i))], events = es\<rparr>"
  using assms
  by (cases "ProviderID (Spec m)"; cases "StartInstance cl (inst_ID i)")
     (simp_all add: reconcileInstance_def Let_def)

subsection \<open>The paths through reconcileNormal\<close>

text \<open>
  Every invocation of \<open>reconcileNormal\<close> either ends before an instance is at hand, and
  then leaves the provider ID and \<open>Ready\<close> alone, or reaches \<open>reconcileInstance\<close> with
  the one instance the provider handed back.
\<close>

lemma reconcileNormal_cases:
  fixes r nc machine m cluster
  defines "out \<equiv> reconcileNormal r nc machine m cluster"
  shows "(observed (calls out) = [] \<and> ProviderID (Spec (obj out)) = ProviderID (Spec m) \<and>
          Ready (Status (obj out)) = Ready (Status m)) \<or>
         (\<exists>cl inst m0 cs es. nc = Inr cl \<and> out = reconcileInstance cl inst m0 cs es \<and>
            observed cs = [inst] \<and> ProviderID (Spec m0) = ProviderID (Spec m) \<and>
            Ready (Status m0) = Ready (Status m) \<and>
            FailureReason (Status m0) = None \<and> FailureMessage (Status m0) = None)"
    (is "?early \<or> ?late")
proof -
  consider
      (latched) "FailureReason (Status m) \<noteq> None \<or> FailureMessage (Status m) \<noteq> None"
    | (nofin) "FailureReason (Status m) = None" "FailureMessage (Status m) = None"
        "\<not> ContainsFinalizer (Finalizers m) MachineFinalizer"
    | (noinfra) "FailureReason (Status m) = None" "FailureMessage (Status m) = None"
        "ContainsFinalizer (Finalizers m) MachineFinalizer" "\<not> cluster_InfrastructureReady cluster"
    | (noboot) "FailureReason (Status m) = None" "FailureMessage (Status m) = None"
        "ContainsFinalizer (Finalizers m) MachineFinalizer" "cluster_InfrastructureReady cluster"
        "machine_DataSecretName machine = None"
    | (go) n where "FailureReason (Status m) = None" "FailureMessage (Status m) = None"
        "ContainsFinalizer (Finalizers m) MachineFinalizer" "cluster_InfrastructureReady cluster"
        "machine_DataSecretName machine = Some n"
    by (cases "machine_DataSecretName machine") auto
  then show ?thesis
  proof cases
    case latched
    then have "?early" by (auto simp: out_def reconcileNormal_def observed_Nil)
    then show ?thesis ..
  next
    case nofin
    then have "?early" by (simp add: out_def reconcileNormal_def observed_Nil)
    then show ?thesis ..
  next
    case noinfra
    then have "?early" by (simp add: out_def reconcileNormal_def observed_Nil MarkFalse_def)
    then show ?thesis ..
  next
    case noboot
    then have "?early" by (simp add: out_def reconcileNormal_def observed_Nil MarkFalse_def)
    then show ?thesis ..
  next
    case go
    show ?thesis
    proof (cases nc)
      case (Inl e)
      with go have "?early" by (simp add: out_def reconcileNormal_def observed_Nil MarkFalse_def)
      then show ?thesis ..
    next
      case (Inr cl)
      obtain fi e cs where f: "findInstance cl m = ((fi, e), cs)"
        by (metis prod.exhaust)
      have out: "out =
        (case findInstance cl m of
           ((_, Some e), cs) \<Rightarrow>
             \<lparr>res = emptyResult, err = Some e, obj = m, calls = cs, events = []\<rparr>
         | ((Some instance, None), cs) \<Rightarrow> reconcileInstance cl instance m cs []
         | ((None, None), cs) \<Rightarrow>
             (case createInstance r cl machine m cluster of
                (Inl e, m', cs') \<Rightarrow>
                  \<lparr>res = emptyResult, err = Some e,
                   obj = MarkFalse m' InstanceReadyCondition
                           InstanceCreationFailedReason ConditionSeverityError (Sprintf e []),
                   calls = cs @ cs', events = []\<rparr>
              | (Inr instance, m', cs') \<Rightarrow>
                  reconcileInstance cl instance
                    (MarkFalse m' InstanceReadyCondition
                       InstanceNotReadyReason ConditionSeverityInfo (Sprintf '''' []))
                    (cs @ cs')
                    [\<lparr>ev_Type = EventTypeNormal, ev_Reason = ''InstanceCreated'',
                      ev_Message = ''Created new DataCrunch instance '' @ inst_ID instance\<rparr>]))"
        using go Inr by (simp add: out_def reconcileNormal_def)
      show ?thesis
      proof (cases e)
        case (Some x)
        then have fiN: "fi = None" using f findInstance_never_both[of cl m] by (cases fi) auto
        with Some f have "observed cs = []" using findInstance_absent by blast
        with out f Some fiN have "?early" by simp
        then show ?thesis ..
      next
        case None
        show ?thesis
        proof (cases fi)
          case (Some i)
          with None f have "observed cs = [i]" using findInstance_found by blast
          moreover from out f None Some have "out = reconcileInstance cl i m cs []" by simp
          ultimately have "?late" using Inr go by blast
          then show ?thesis ..
        next
          case fiNone: None
          with None f have ocs: "observed cs = []" using findInstance_absent by blast
          obtain x m' cs' where c: "createInstance r cl machine m cluster = (x, m', cs')"
            by (metis prod.exhaust)
          show ?thesis
          proof (cases x)
            case (Inl e')
            with c have "observed cs' = []" "ProviderID (Spec m') = ProviderID (Spec m)"
              "Status m' = Status m"
              using createInstance_Inl by blast+
            with out f None fiNone c Inl ocs have "?early"
              by (simp add: observed_append MarkFalse_def)
            then show ?thesis ..
          next
            case (Inr i)
            with c have ci: "observed cs' = [i]" "ProviderID (Spec m') = ProviderID (Spec m)"
              "Status m' = Status m"
              using createInstance_Inr by blast+
            let ?m0 = "MarkFalse m' InstanceReadyCondition
                         InstanceNotReadyReason ConditionSeverityInfo (Sprintf '''' [])"
            have eq: "out = reconcileInstance cl i ?m0 (cs @ cs')
                        [\<lparr>ev_Type = EventTypeNormal, ev_Reason = ''InstanceCreated'',
                          ev_Message = ''Created new DataCrunch instance '' @ inst_ID i\<rparr>]"
              using out f None fiNone c Inr by simp
            have "ProviderID (Spec ?m0) = ProviderID (Spec m)"
              "Ready (Status ?m0) = Ready (Status m)"
              "FailureReason (Status ?m0) = None" "FailureMessage (Status ?m0) = None"
              "observed (cs @ cs') = [i]"
              using ci go ocs by (simp_all add: MarkFalse_def observed_append)
            with \<open>nc = Inr cl\<close> eq have "?late" by blast
            then show ?thesis ..
          qed
        qed
      qed
    qed
  qed
qed

lemma reconcileNormal_observes:
  assumes "inst \<in> set (observed (calls (reconcileNormal r nc machine m cluster)))"
  obtains cl m0 cs es where "nc = Inr cl"
    "reconcileNormal r nc machine m cluster = reconcileInstance cl inst m0 cs es"
    "ProviderID (Spec m0) = ProviderID (Spec m)" "Ready (Status m0) = Ready (Status m)"
    "FailureReason (Status m0) = None" "FailureMessage (Status m0) = None"
proof -
  from reconcileNormal_cases[of r nc machine m cluster] assms
  obtain cl i m0 cs es where *: "nc = Inr cl"
    "reconcileNormal r nc machine m cluster = reconcileInstance cl i m0 cs es"
    "observed cs = [i]"
    "ProviderID (Spec m0) = ProviderID (Spec m)" "Ready (Status m0) = Ready (Status m)"
    "FailureReason (Status m0) = None" "FailureMessage (Status m0) = None"
    by auto
  with assms have "inst = i" by (simp add: reconcileInstance_observed)
  with * that show thesis by blast
qed


lemma reconcileNormal_latched:
  "FailureReason (Status m) \<noteq> None \<or> FailureMessage (Status m) \<noteq> None \<Longrightarrow>
   reconcileNormal r nc machine m cluster =
     \<lparr>res = emptyResult, err = None, obj = m, calls = [], events = []\<rparr>"
  by (simp add: reconcileNormal_def)

lemma reconcileNormalRepeat_latched:
  "FailureReason (Status m) \<noteq> None \<or> FailureMessage (Status m) \<noteq> None \<Longrightarrow>
   out \<in> set (reconcileNormalRepeat runs m) \<Longrightarrow>
   out = \<lparr>res = emptyResult, err = None, obj = m, calls = [], events = []\<rparr>"
proof (induction runs)
  case Nil
  then show ?case by simp
next
  case (Cons a runs)
  obtain r nc machine cluster where a: "a = (r, nc, machine, cluster)"
    by (cases a) auto
  from Cons show ?case
    by (auto simp: a Let_def reconcileNormal_latched)
qed

subsection \<open>Deletion and the cluster\<close>


lemma RemoveFinalizer_absent: "f \<notin> set (RemoveFinalizer fs f)"
  by (simp add: RemoveFinalizer_def)

lemma reconcileNetwork_Ready:
  "dcc_Ready (dcc_Status (fst (reconcileNetwork cl c))) = dcc_Ready (dcc_Status c) \<and>
   snd (reconcileNetwork cl c) = None"
  by (simp add: reconcileNetwork_def Let_def)

lemma reconcileLoadBalancer_Ready:
  "dcc_Ready (dcc_Status (fst (reconcileLoadBalancer cl cluster c))) = dcc_Ready (dcc_Status c) \<and>
   snd (reconcileLoadBalancer cl cluster c) = None"
  by (simp add: reconcileLoadBalancer_def)

subsection \<open>The terminal latch\<close>

text \<open>
  C1. When the status of a DataCrunchMachine already has \<open>FailureReason\<close> or
  \<open>FailureMessage\<close> set, \<open>reconcileNormal\<close> returns the empty result and no error, calls
  nothing on the cloud client, records no event and leaves the object as it was, whatever
  the client, the owner machine and the cluster are. So does every later invocation in a run
  on the object it left: the failure fields, \<open>Ready\<close>, the addresses and the finalizers
  stay what they were, also when the provider now reports the instance running.
\<close>

theorem C1_terminal_latch:
  assumes "FailureReason (Status m) \<noteq> None \<or> FailureMessage (Status m) \<noteq> None"
  shows "reconcileNormal r newClient machine m cluster =
           \<lparr>res = emptyResult, err = None, obj = m, calls = [], events = []\<rparr> \<and>
         (\<forall>out \<in> set (reconcileNormalRepeat runs m).
            res out = emptyResult \<and> err out = None \<and> calls out = [] \<and> obj out = m \<and>
            FailureReason (Status (obj out)) = FailureReason (Status m) \<and>
            FailureMessage (Status (obj out)) = FailureMessage (Status m) \<and>
            Ready (Status (obj out)) = Ready (Status m) \<and>
            Addresses (Status (obj out)) = Addresses (Status m) \<and>
            Finalizers (obj out) = Finalizers m)"
  using assms reconcileNormal_latched[OF assms] reconcileNormalRepeat_latched[OF assms]
  by fastforce

theorem C1_terminal_latch_witness:
  "FailureReason (Status failedMachine) = Some UpdateMachineError \<and>
   reconcileNormal exampleEnv (Inr (stubClient (exampleInstance ''running'' ''10.0.0.5'' '''')))
       exampleOwner failedMachine exampleCluster =
     \<lparr>res = emptyResult, err = None, obj = failedMachine, calls = [], events = []\<rparr> \<and>
   map calls (reconcileNormalRepeat
       [(exampleEnv, Inr (stubClient (exampleInstance ''running'' ''10.0.0.5'' '''')), exampleOwner, exampleCluster),
        (exampleEnv, Inr (stubClient (exampleInstance ''running'' ''10.0.0.5'' '''')), exampleOwner, exampleCluster)]
       failedMachine) = [[], []] \<and>
   map (\<lambda>out. FailureReason (Status (obj out))) (reconcileNormalRepeat
       [(exampleEnv, Inr (stubClient (exampleInstance ''running'' ''10.0.0.5'' '''')), exampleOwner, exampleCluster),
        (exampleEnv, Inr (stubClient (exampleInstance ''running'' ''10.0.0.5'' '''')), exampleOwner, exampleCluster)]
       failedMachine) = [Some UpdateMachineError, Some UpdateMachineError]"
proof -
  have latched: "FailureReason (Status failedMachine) \<noteq> None \<or> FailureMessage (Status failedMachine) \<noteq> None"
    by (simp add: failedMachine_def exampleStatus_def)
  have fr: "FailureReason (Status failedMachine) = Some UpdateMachineError"
    by (simp add: failedMachine_def exampleStatus_def)
  show ?thesis
    using latched fr
      C1_terminal_latch[OF latched, of exampleEnv
        "Inr (stubClient (exampleInstance ''running'' ''10.0.0.5'' ''''))" exampleOwner exampleCluster
        "[(exampleEnv, Inr (stubClient (exampleInstance ''running'' ''10.0.0.5'' '''')), exampleOwner, exampleCluster),
          (exampleEnv, Inr (stubClient (exampleInstance ''running'' ''10.0.0.5'' '''')), exampleOwner, exampleCluster)]"]
    by (simp add: Let_def)
qed

subsection \<open>Deleting a machine\<close>

text \<open>
  C2, as the code has it. When the lookup of the instance fails during deletion
  (\<open>findInstance\<close> returns an error, which is never the provider's not-found error, since
  that one is turned into "no instance"), \<open>reconcileDelete\<close> only logs it: it makes no
  \<open>DeleteInstance\<close> call, its only call is the failed lookup, it removes the
  \<open>MachineFinalizer\<close> and returns the empty result with no error, so no requeue is
  requested.
\<close>

theorem C2_lookup_failure_amended:
  assumes "fst (findInstance cl m) = (None, Some e)"
  shows "obj (reconcileDelete (Inr cl) m) =
           m\<lparr>Finalizers := RemoveFinalizer (Finalizers m) MachineFinalizer\<rparr> \<and>
         MachineFinalizer \<notin> set (Finalizers (obj (reconcileDelete (Inr cl) m))) \<and>
         res (reconcileDelete (Inr cl) m) = emptyResult \<and>
         RequeueAfter emptyResult = 0 \<and> \<not> Requeue emptyResult \<and>
         err (reconcileDelete (Inr cl) m) = None \<and>
         calls (reconcileDelete (Inr cl) m) = snd (findInstance cl m) \<and>
         (\<forall>i x. DeleteInstanceCall i x \<notin> set (calls (reconcileDelete (Inr cl) m)))"
proof -
  from assms obtain cs where f: "findInstance cl m = ((None, Some e), cs)"
    by (cases "findInstance cl m") auto
  then have out: "reconcileDelete (Inr cl) m =
      \<lparr>res = emptyResult, err = None,
       obj = m\<lparr>Finalizers := RemoveFinalizer (Finalizers m) MachineFinalizer\<rparr>,
       calls = cs, events = []\<rparr>"
    by (simp add: reconcileDelete_def Let_def)
  from f have "\<forall>i x. DeleteInstanceCall i x \<notin> set cs"
    by (auto simp: findInstance_def Let_def split: option.splits sum.splits if_splits)
  with f show ?thesis
    by (simp add: out RemoveFinalizer_absent emptyResult_def)
qed

theorem C2_lookup_failure_amended_witness:
  "fst (findInstance (failingClient ''failed to get instance, status: 500'')
          (exampleMachine (Some ''datacrunch://i-123''))) =
     (None, Some ''failed to get instance, status: 500'') \<and>
   Finalizers (obj (reconcileDelete
       (Inr (failingClient ''failed to get instance, status: 500''))
       (exampleMachine (Some ''datacrunch://i-123'')))) = [] \<and>
   res (reconcileDelete
       (Inr (failingClient ''failed to get instance, status: 500''))
       (exampleMachine (Some ''datacrunch://i-123''))) = emptyResult \<and>
   err (reconcileDelete
       (Inr (failingClient ''failed to get instance, status: 500''))
       (exampleMachine (Some ''datacrunch://i-123''))) = None \<and>
   calls (reconcileDelete
       (Inr (failingClient ''failed to get instance, status: 500''))
       (exampleMachine (Some ''datacrunch://i-123''))) =
     [GetInstanceCall ''i-123'' (Inl ''failed to get instance, status: 500'')]"
proof -
  let ?cl = "failingClient ''failed to get instance, status: 500''"
  let ?m = "exampleMachine (Some ''datacrunch://i-123'')"
  have f: "findInstance ?cl ?m =
      ((None, Some ''failed to get instance, status: 500''),
       [GetInstanceCall ''i-123'' (Inl ''failed to get instance, status: 500'')])"
    by (simp add: findInstance_def exampleMachine_def failingClient_def Let_def)
  then have h: "fst (findInstance ?cl ?m) = (None, Some ''failed to get instance, status: 500'')"
    by simp
  have fin: "RemoveFinalizer (Finalizers ?m) MachineFinalizer = []"
    by (simp add: RemoveFinalizer_def exampleMachine_def)
  note t = C2_lookup_failure_amended[OF h]
  from t fin have a: "Finalizers (obj (reconcileDelete (Inr ?cl) ?m)) = []" by simp
  from t have b: "res (reconcileDelete (Inr ?cl) ?m) = emptyResult"
    "err (reconcileDelete (Inr ?cl) ?m) = None" by blast+
  from t f have c: "calls (reconcileDelete (Inr ?cl) ?m) =
     [GetInstanceCall ''i-123'' (Inl ''failed to get instance, status: 500'')]" by simp
  from h a b c show ?thesis by blast
qed

text \<open>
  The statement that such a deletion keeps the finalizer and requests a requeue fails on
  the machine of the unit tests with provider ID \<open>datacrunch://i-123\<close> and a provider
  that answers the lookup with status 500: the finalizer is gone, the result is empty and
  the error is nil.
\<close>

theorem C2_lookup_failure_counterexample:
  "MachineFinalizer \<in> set (Finalizers (exampleMachine (Some ''datacrunch://i-123''))) \<and>
   fst (findInstance (failingClient ''failed to get instance, status: 500'')
          (exampleMachine (Some ''datacrunch://i-123''))) =
     (None, Some ''failed to get instance, status: 500'') \<and>
   ''failed to get instance, status: 500'' \<noteq> ''instance not found: i-123'' \<and>
   MachineFinalizer \<notin> set (Finalizers (obj (reconcileDelete
       (Inr (failingClient ''failed to get instance, status: 500''))
       (exampleMachine (Some ''datacrunch://i-123''))))) \<and>
   RequeueAfter (res (reconcileDelete
       (Inr (failingClient ''failed to get instance, status: 500''))
       (exampleMachine (Some ''datacrunch://i-123'')))) = 0 \<and>
   \<not> Requeue (res (reconcileDelete
       (Inr (failingClient ''failed to get instance, status: 500''))
       (exampleMachine (Some ''datacrunch://i-123'')))) \<and>
   err (reconcileDelete
       (Inr (failingClient ''failed to get instance, status: 500''))
       (exampleMachine (Some ''datacrunch://i-123''))) = None"
  by (simp add: example_defs reconcile_defs emptyResult_def)

text \<open>
  C7. In \<open>reconcileDelete\<close>, when the instance is found and \<open>DeleteInstance\<close> fails, that
  error is returned with a \<open>RequeueAfter\<close> of 30 seconds and the object is left as it
  was, finalizer included. When \<open>DeleteInstance\<close> succeeds, and when no client or no
  instance was obtained, the \<open>MachineFinalizer\<close> is removed and the empty result is
  returned with no error.
\<close>

theorem C7_delete:
  "(newClient = Inr cl \<and> fst (findInstance cl m) = (Some inst, None) \<and>
    DeleteInstance cl (inst_ID inst) = Some e \<longrightarrow>
      res (reconcileDelete newClient m) = requeueAfter30s \<and>
      RequeueAfter requeueAfter30s = 30 * 1000000000 \<and>
      err (reconcileDelete newClient m) = Some e \<and>
      obj (reconcileDelete newClient m) = m \<and>
      DeleteInstanceCall (inst_ID inst) (Some e) \<in> set (calls (reconcileDelete newClient m))) \<and>
   (newClient = Inr cl \<and> fst (findInstance cl m) = (Some inst, None) \<and>
    DeleteInstance cl (inst_ID inst) = None \<longrightarrow>
      obj (reconcileDelete newClient m) =
        m\<lparr>Finalizers := RemoveFinalizer (Finalizers m) MachineFinalizer\<rparr> \<and>
      MachineFinalizer \<notin> set (Finalizers (obj (reconcileDelete newClient m))) \<and>
      res (reconcileDelete newClient m) = emptyResult \<and>
      err (reconcileDelete newClient m) = None \<and>
      DeleteInstanceCall (inst_ID inst) None \<in> set (calls (reconcileDelete newClient m))) \<and>
   (newClient = Inl e' \<or> (newClient = Inr cl \<and> fst (fst (findInstance cl m)) = None) \<longrightarrow>
      obj (reconcileDelete newClient m) =
        m\<lparr>Finalizers := RemoveFinalizer (Finalizers m) MachineFinalizer\<rparr> \<and>
      MachineFinalizer \<notin> set (Finalizers (obj (reconcileDelete newClient m))) \<and>
      res (reconcileDelete newClient m) = emptyResult \<and>
      err (reconcileDelete newClient m) = None)"
proof (intro conjI impI)
  assume a: "newClient = Inr cl \<and> fst (findInstance cl m) = (Some inst, None) \<and>
    DeleteInstance cl (inst_ID inst) = Some e"
  then obtain cs where "findInstance cl m = ((Some inst, None), cs)"
    by (cases "findInstance cl m") auto
  with a have out: "reconcileDelete newClient m =
      \<lparr>res = requeueAfter30s, err = Some e, obj = m,
       calls = cs @ [DeleteInstanceCall (inst_ID inst) (Some e)], events = []\<rparr>"
    by (simp add: reconcileDelete_def Let_def)
  show "res (reconcileDelete newClient m) = requeueAfter30s"
    "err (reconcileDelete newClient m) = Some e"
    "obj (reconcileDelete newClient m) = m"
    "DeleteInstanceCall (inst_ID inst) (Some e) \<in> set (calls (reconcileDelete newClient m))"
    by (simp_all add: out)
  show "RequeueAfter requeueAfter30s = 30 * 1000000000"
    by (simp add: requeueAfter30s_def Second_def)
next
  assume a: "newClient = Inr cl \<and> fst (findInstance cl m) = (Some inst, None) \<and>
    DeleteInstance cl (inst_ID inst) = None"
  then obtain cs where "findInstance cl m = ((Some inst, None), cs)"
    by (cases "findInstance cl m") auto
  with a have out: "reconcileDelete newClient m =
      \<lparr>res = emptyResult, err = None,
       obj = m\<lparr>Finalizers := RemoveFinalizer (Finalizers m) MachineFinalizer\<rparr>,
       calls = cs @ [DeleteInstanceCall (inst_ID inst) None],
       events = [\<lparr>ev_Type = EventTypeNormal, ev_Reason = ''InstanceDeleted'',
                  ev_Message = ''Deleted DataCrunch instance '' @ inst_ID inst\<rparr>]\<rparr>"
    by (simp add: reconcileDelete_def Let_def)
  show "obj (reconcileDelete newClient m) =
        m\<lparr>Finalizers := RemoveFinalizer (Finalizers m) MachineFinalizer\<rparr>"
    "MachineFinalizer \<notin> set (Finalizers (obj (reconcileDelete newClient m)))"
    "res (reconcileDelete newClient m) = emptyResult"
    "err (reconcileDelete newClient m) = None"
    "DeleteInstanceCall (inst_ID inst) None \<in> set (calls (reconcileDelete newClient m))"
    by (simp_all add: out RemoveFinalizer_absent)
next
  assume a: "newClient = Inl e' \<or> (newClient = Inr cl \<and> fst (fst (findInstance cl m)) = None)"
  have out: "obj (reconcileDelete newClient m) =
        m\<lparr>Finalizers := RemoveFinalizer (Finalizers m) MachineFinalizer\<rparr> \<and>
      res (reconcileDelete newClient m) = emptyResult \<and>
      err (reconcileDelete newClient m) = None"
    using a
    by (cases "findInstance cl m")
       (auto simp: reconcileDelete_def Let_def split: option.splits)
  then show "obj (reconcileDelete newClient m) =
        m\<lparr>Finalizers := RemoveFinalizer (Finalizers m) MachineFinalizer\<rparr>"
    "MachineFinalizer \<notin> set (Finalizers (obj (reconcileDelete newClient m)))"
    "res (reconcileDelete newClient m) = emptyResult"
    "err (reconcileDelete newClient m) = None"
    by (simp_all add: RemoveFinalizer_absent)
qed

theorem C7_delete_witness:
  "fst (findInstance (stuckClient (exampleInstance ''running'' '''' '''')
                        ''failed to delete instance, status: 500'')
          (exampleMachine (Some ''datacrunch://i-123''))) =
     (Some (exampleInstance ''running'' '''' ''''), None) \<and>
   err (reconcileDelete
          (Inr (stuckClient (exampleInstance ''running'' '''' '''')
                  ''failed to delete instance, status: 500''))
          (exampleMachine (Some ''datacrunch://i-123''))) =
     Some ''failed to delete instance, status: 500'' \<and>
   RequeueAfter (res (reconcileDelete
          (Inr (stuckClient (exampleInstance ''running'' '''' '''')
                  ''failed to delete instance, status: 500''))
          (exampleMachine (Some ''datacrunch://i-123'')))) = 30000000000 \<and>
   Finalizers (obj (reconcileDelete
          (Inr (stuckClient (exampleInstance ''running'' '''' '''')
                  ''failed to delete instance, status: 500''))
          (exampleMachine (Some ''datacrunch://i-123'')))) = [MachineFinalizer] \<and>
   fst (findInstance (stubClient (exampleInstance ''running'' '''' ''''))
          (exampleMachine (Some ''datacrunch://i-123''))) =
     (Some (exampleInstance ''running'' '''' ''''), None) \<and>
   Finalizers (obj (reconcileDelete (Inr (stubClient (exampleInstance ''running'' '''' '''')))
          (exampleMachine (Some ''datacrunch://i-123'')))) = [] \<and>
   err (reconcileDelete (Inr (stubClient (exampleInstance ''running'' '''' '''')))
          (exampleMachine (Some ''datacrunch://i-123''))) = None \<and>
   Finalizers (obj (reconcileDelete (Inl ''no credentials'')
          (exampleMachine (Some ''datacrunch://i-123'')))) = [] \<and>
   res (reconcileDelete (Inl ''no credentials'')
          (exampleMachine (Some ''datacrunch://i-123''))) = emptyResult \<and>
   fst (fst (findInstance (failingClient ''instance not found: i-123'')
          (exampleMachine (Some ''datacrunch://i-123'')))) = None \<and>
   Finalizers (obj (reconcileDelete (Inr (failingClient ''instance not found: i-123''))
          (exampleMachine (Some ''datacrunch://i-123'')))) = [] \<and>
   err (reconcileDelete (Inr (failingClient ''instance not found: i-123''))
          (exampleMachine (Some ''datacrunch://i-123''))) = None"
proof -
  let ?i = "exampleInstance ''running'' '''' ''''"
  let ?m = "exampleMachine (Some ''datacrunch://i-123'')"
  let ?stuck = "stuckClient ?i ''failed to delete instance, status: 500''"
  let ?stub = "stubClient ?i"
  let ?nf = "failingClient ''instance not found: i-123''"
  have f1: "fst (findInstance ?stuck ?m) = (Some ?i, None)"
    by (simp add: findInstance_def exampleMachine_def stuckClient_def Let_def)
  have d1: "DeleteInstance ?stuck (inst_ID ?i) = Some ''failed to delete instance, status: 500''"
    by (simp add: stuckClient_def)
  have f2: "fst (findInstance ?stub ?m) = (Some ?i, None)"
    by (simp add: findInstance_def exampleMachine_def stubClient_def Let_def)
  have d2: "DeleteInstance ?stub (inst_ID ?i) = None"
    by (simp add: stubClient_def)
  have f4: "fst (fst (findInstance ?nf ?m)) = None"
    by (simp add: findInstance_def exampleMachine_def failingClient_def Let_def)
  have fin: "Finalizers ?m = [MachineFinalizer]"
    "RemoveFinalizer (Finalizers ?m) MachineFinalizer = []"
    by (simp_all add: RemoveFinalizer_def exampleMachine_def)
  note t1 = C7_delete[of "Inr ?stuck" ?stuck ?m ?i "''failed to delete instance, status: 500''"]
  note t2 = C7_delete[of "Inr ?stub" ?stub ?m ?i]
  note t3 = C7_delete[of "Inl ''no credentials''" ?stub ?m ?i "''''" "''no credentials''"]
  note t4 = C7_delete[of "Inr ?nf" ?nf ?m ?i]
  from t1 f1 d1 have a: "err (reconcileDelete (Inr ?stuck) ?m) =
      Some ''failed to delete instance, status: 500''"
    "res (reconcileDelete (Inr ?stuck) ?m) = requeueAfter30s"
    "RequeueAfter requeueAfter30s = 30 * 1000000000"
    "obj (reconcileDelete (Inr ?stuck) ?m) = ?m"
    by blast+
  then have a': "RequeueAfter (res (reconcileDelete (Inr ?stuck) ?m)) = 30000000000"
    "Finalizers (obj (reconcileDelete (Inr ?stuck) ?m)) = [MachineFinalizer]"
    using fin by simp_all
  from t2 f2 d2 have "obj (reconcileDelete (Inr ?stub) ?m) =
        ?m\<lparr>Finalizers := RemoveFinalizer (Finalizers ?m) MachineFinalizer\<rparr>"
    and b2: "err (reconcileDelete (Inr ?stub) ?m) = None"
    by blast+
  then have b: "Finalizers (obj (reconcileDelete (Inr ?stub) ?m)) = []"
    using fin by simp
  from t3 have "obj (reconcileDelete (Inl ''no credentials'') ?m) =
        ?m\<lparr>Finalizers := RemoveFinalizer (Finalizers ?m) MachineFinalizer\<rparr>"
    and c2: "res (reconcileDelete (Inl ''no credentials'') ?m) = emptyResult"
    by blast+
  then have c: "Finalizers (obj (reconcileDelete (Inl ''no credentials'') ?m)) = []"
    using fin by simp
  from t4 f4 have "obj (reconcileDelete (Inr ?nf) ?m) =
        ?m\<lparr>Finalizers := RemoveFinalizer (Finalizers ?m) MachineFinalizer\<rparr>"
    and d2': "err (reconcileDelete (Inr ?nf) ?m) = None"
    by blast+
  then have d: "Finalizers (obj (reconcileDelete (Inr ?nf) ?m)) = []"
    using fin by simp
  from f1 a(1) a' f2 b b2 c c2 f4 d d2' show ?thesis by blast
qed

subsection \<open>Looking the instance up\<close>

text \<open>
  C3. For a machine with a provider ID: when \<open>findInstance\<close> called \<open>GetInstance\<close> on
  the id \<open>i\<close> (the provider ID without its first 13 bytes) and the answer is the error
  whose text is exactly \<open>instance not found: i\<close>, \<open>findInstance\<close> returns no instance and
  no error; when the answer is any other error, \<open>findInstance\<close> returns that error. For a
  machine without a provider ID, \<open>findInstance\<close> returns no instance and no error and
  calls nothing. The \<open>GetInstance\<close> of \<open>datacrunch.Client\<close> answers a 404 with exactly that
  text, so a 404 is "no instance".
\<close>

theorem C3_findInstance_not_found:
  "(ProviderID (Spec m) = Some p \<and> GetInstanceCall i r \<in> set (snd (findInstance cl m)) \<longrightarrow>
      i = drop 13 p \<and> r = GetInstance cl i \<and>
      (r = Inl (''instance not found: '' @ i) \<longrightarrow> fst (findInstance cl m) = (None, None)) \<and>
      (\<forall>e. r = Inl e \<and> e \<noteq> ''instance not found: '' @ i \<longrightarrow>
           fst (findInstance cl m) = (None, Some e))) \<and>
   (ProviderID (Spec m) = None \<longrightarrow> findInstance cl m = ((None, None), [])) \<and>
   (ProviderID (Spec m) = Some p \<and> 13 < length p \<and>
    GetInstance cl = datacrunch_GetInstance makeRequest \<and>
    makeRequest (''/instances/'' @ drop 13 p) = Inr (StatusNotFound, body) \<longrightarrow>
      findInstance cl m =
        ((None, None),
         [GetInstanceCall (drop 13 p) (Inl (''instance not found: '' @ drop 13 p))]))"
proof (intro conjI impI)
  assume a: "ProviderID (Spec m) = Some p \<and> GetInstanceCall i r \<in> set (snd (findInstance cl m))"
  then have p: "ProviderID (Spec m) = Some p" by simp
  from a have long: "13 < length p"
    using findInstance_short[of m p cl] by (cases "13 < length p") auto
  note fi = findInstance_long[OF p long, of cl]
  from a have ir: "i = drop 13 p" "GetInstance cl (drop 13 p) = r"
    by (auto simp: fi split: sum.splits if_splits)
  show "i = drop 13 p" by (rule ir)
  show "r = GetInstance cl i" using ir by simp
  { assume "r = Inl (''instance not found: '' @ i)"
    then have "GetInstance cl (drop 13 p) = Inl (''instance not found: '' @ drop 13 p)"
      using ir by simp
    then show "fst (findInstance cl m) = (None, None)"
      by (simp add: fi) }
  show "\<forall>e. r = Inl e \<and> e \<noteq> ''instance not found: '' @ i \<longrightarrow>
           fst (findInstance cl m) = (None, Some e)"
  proof (intro allI impI)
    fix e assume e: "r = Inl e \<and> e \<noteq> ''instance not found: '' @ i"
    then have "GetInstance cl (drop 13 p) = Inl e" "e \<noteq> ''instance not found: '' @ drop 13 p"
      using ir by simp_all
    then show "fst (findInstance cl m) = (None, Some e)"
      by (simp add: fi)
  qed
next
  assume "ProviderID (Spec m) = None"
  then show "findInstance cl m = ((None, None), [])" by (rule findInstance_None)
next
  assume "ProviderID (Spec m) = Some p \<and> 13 < length p \<and>
    GetInstance cl = datacrunch_GetInstance makeRequest \<and>
    makeRequest (''/instances/'' @ drop 13 p) = Inr (StatusNotFound, body)"
  then show "findInstance cl m =
        ((None, None),
         [GetInstanceCall (drop 13 p) (Inl (''instance not found: '' @ drop 13 p))])"
    by (simp add: findInstance_long datacrunch_GetInstance_def)
qed

theorem C3_findInstance_not_found_witness:
  "GetInstanceCall ''i-123'' (Inl ''instance not found: i-123'')
     \<in> set (snd (findInstance (failingClient ''instance not found: i-123'')
                   (exampleMachine (Some ''datacrunch://i-123'')))) \<and>
   fst (findInstance (failingClient ''instance not found: i-123'')
          (exampleMachine (Some ''datacrunch://i-123''))) = (None, None) \<and>
   GetInstanceCall ''i-123'' (Inl ''failed to get instance, status: 500'')
     \<in> set (snd (findInstance (failingClient ''failed to get instance, status: 500'')
                   (exampleMachine (Some ''datacrunch://i-123'')))) \<and>
   fst (findInstance (failingClient ''failed to get instance, status: 500'')
          (exampleMachine (Some ''datacrunch://i-123''))) =
     (None, Some ''failed to get instance, status: 500'') \<and>
   findInstance (failingClient ''instance not found: i-123'') (exampleMachine None) =
     ((None, None), []) \<and>
   findInstance
     ((failingClient '''')\<lparr>GetInstance :=
         datacrunch_GetInstance (\<lambda>_. Inr (StatusNotFound, Inl ''EOF''))\<rparr>)
     (exampleMachine (Some ''datacrunch://i-123'')) =
     ((None, None), [GetInstanceCall ''i-123'' (Inl ''instance not found: i-123'')])"
proof -
  let ?m = "exampleMachine (Some ''datacrunch://i-123'')"
  let ?nf = "failingClient ''instance not found: i-123''"
  let ?err = "failingClient ''failed to get instance, status: 500''"
  let ?real = "(failingClient '''')\<lparr>GetInstance :=
         datacrunch_GetInstance (\<lambda>_. Inr (StatusNotFound, Inl ''EOF''))\<rparr>"
  have p: "ProviderID (Spec ?m) = Some ''datacrunch://i-123''"
    by (simp add: exampleMachine_def)
  have c1: "GetInstanceCall ''i-123'' (Inl ''instance not found: i-123'')
     \<in> set (snd (findInstance ?nf ?m))"
    by (simp add: findInstance_def exampleMachine_def failingClient_def Let_def)
  have c2: "GetInstanceCall ''i-123'' (Inl ''failed to get instance, status: 500'')
     \<in> set (snd (findInstance ?err ?m))"
    by (simp add: findInstance_def exampleMachine_def failingClient_def Let_def)
  have n: "ProviderID (Spec (exampleMachine None)) = None"
    by (simp add: exampleMachine_def)
  have r: "GetInstance ?real = datacrunch_GetInstance (\<lambda>_. Inr (StatusNotFound, Inl ''EOF''))"
    "(13::nat) < length ''datacrunch://i-123''" "drop 13 ''datacrunch://i-123'' = ''i-123''"
    by simp_all
  have ne: "''failed to get instance, status: 500'' \<noteq> ''instance not found: '' @ ''i-123''"
    by simp
  have f1: "fst (findInstance ?nf ?m) = (None, None)"
    using C3_findInstance_not_found[of ?m "''datacrunch://i-123''" "''i-123''"
        "Inl ''instance not found: i-123''" ?nf] p c1
    by simp
  have f2: "fst (findInstance ?err ?m) = (None, Some ''failed to get instance, status: 500'')"
    using C3_findInstance_not_found[of ?m "''datacrunch://i-123''" "''i-123''"
        "Inl ''failed to get instance, status: 500''" ?err] p c2 ne
    by blast
  have f3: "findInstance ?nf (exampleMachine None) = ((None, None), [])"
    using C3_findInstance_not_found[of "exampleMachine None" "''''" "''''" "Inl ''''" ?nf] n
    by blast
  have f4: "findInstance ?real ?m =
     ((None, None), [GetInstanceCall ''i-123'' (Inl ''instance not found: i-123'')])"
    using C3_findInstance_not_found[of ?m "''datacrunch://i-123''" "''''" "Inl ''''" ?real
        "\<lambda>_. Inr (StatusNotFound, Inl ''EOF'')" "Inl ''EOF''"] p r
    by simp
  from c1 f1 c2 f2 f3 f4 show ?thesis by blast
qed

text \<open>
  C10. \<open>findInstance\<close> takes the instance id to be the provider ID without its first 13
  bytes whenever the provider ID is longer than 13 bytes, whatever those 13 bytes are, and
  calls \<open>GetInstance\<close> on it. For a provider ID of 13 bytes or fewer, the empty one
  included, it returns no instance and no error and calls nothing; \<open>reconcileNormal\<close> on
  such a machine, past its gates and with bootstrap data at hand, then calls
  \<open>CreateInstance\<close> first.
\<close>

theorem C10_providerID_parsing:
  "(ProviderID (Spec m) = Some p \<and> 13 < length p \<longrightarrow>
      drop 13 p \<noteq> '''' \<and>
      snd (findInstance cl m) = [GetInstanceCall (drop 13 p) (GetInstance cl (drop 13 p))]) \<and>
   (ProviderID (Spec m) = Some p \<and> length p \<le> 13 \<longrightarrow>
      findInstance cl m = ((None, None), [])) \<and>
   (ProviderID (Spec m) = Some p \<and> length p \<le> 13 \<and>
    FailureReason (Status m) = None \<and> FailureMessage (Status m) = None \<and>
    ContainsFinalizer (Finalizers m) MachineFinalizer \<and> cluster_InfrastructureReady cluster \<and>
    getBootstrapData r machine = Inr userData \<longrightarrow>
      (\<exists>spec rest.
         calls (reconcileNormal r (Inr cl) machine m cluster) =
           CreateInstanceCall spec (CreateInstance cl spec) # rest \<and>
         spec_Name spec = Name m \<and> spec_UserData spec = userData))"
proof (intro conjI impI)
  assume a: "ProviderID (Spec m) = Some p \<and> 13 < length p"
  then show "drop 13 p \<noteq> ''''" by simp
  from a show "snd (findInstance cl m) =
      [GetInstanceCall (drop 13 p) (GetInstance cl (drop 13 p))]"
    by (simp add: findInstance_long split: sum.splits)
next
  assume "ProviderID (Spec m) = Some p \<and> length p \<le> 13"
  then show "findInstance cl m = ((None, None), [])"
    by (simp add: findInstance_short)
next
  assume a: "ProviderID (Spec m) = Some p \<and> length p \<le> 13 \<and>
    FailureReason (Status m) = None \<and> FailureMessage (Status m) = None \<and>
    ContainsFinalizer (Finalizers m) MachineFinalizer \<and> cluster_InfrastructureReady cluster \<and>
    getBootstrapData r machine = Inr userData"
  then have fi: "findInstance cl m = ((None, None), [])"
    by (simp add: findInstance_short)
  from a obtain n where n: "machine_DataSecretName machine = Some n"
    by (cases "machine_DataSecretName machine") (auto simp: getBootstrapData_def)
  from a obtain spec where spec:
    "snd (snd (createInstance r cl machine m cluster)) =
       [CreateInstanceCall spec (CreateInstance cl spec)]"
    "spec_Name spec = Name m" "spec_UserData spec = userData"
    using createInstance_calls[of r machine userData cl m cluster] by auto
  obtain x m' cs' where c: "createInstance r cl machine m cluster = (x, m', cs')"
    by (metis prod.exhaust)
  with spec have cs': "cs' = [CreateInstanceCall spec (CreateInstance cl spec)]" by simp
  have "\<exists>rest. calls (reconcileNormal r (Inr cl) machine m cluster) = cs' @ rest"
  proof (cases x)
    case (Inl e)
    with a n fi c show ?thesis by (simp add: reconcileNormal_def)
  next
    case (Inr i)
    with a n fi c show ?thesis
      using reconcileInstance_calls by (simp add: reconcileNormal_def)
  qed
  with cs' spec show "\<exists>spec rest.
         calls (reconcileNormal r (Inr cl) machine m cluster) =
           CreateInstanceCall spec (CreateInstance cl spec) # rest \<and>
         spec_Name spec = Name m \<and> spec_UserData spec = userData"
    by auto
qed

theorem C10_providerID_parsing_witness:
  "snd (findInstance (stubClient (exampleInstance ''running'' '''' ''''))
          (exampleMachine (Some ''aws:///i-0123456789''))) =
     [GetInstanceCall ''456789'' (Inr (exampleInstance ''running'' '''' ''''))] \<and>
   findInstance (stubClient (exampleInstance ''running'' '''' ''''))
     (exampleMachine (Some ''datacrunch://'')) = ((None, None), []) \<and>
   findInstance (stubClient (exampleInstance ''running'' '''' ''''))
     (exampleMachine (Some '''')) = ((None, None), []) \<and>
   (\<exists>spec rest.
      calls (reconcileNormal exampleEnv (Inr (stubClient (exampleInstance ''running'' '''' '''')))
               exampleOwner (exampleMachine (Some ''datacrunch://'')) exampleCluster) =
        CreateInstanceCall spec (Inr (exampleInstance ''running'' '''' '''')) # rest \<and>
      spec_Name spec = ''test-machine'' \<and> spec_UserData spec = ''Zm9v'')"
proof -
  let ?cl = "stubClient (exampleInstance ''running'' '''' '''')"
  have boot: "getBootstrapData exampleEnv exampleOwner = Inr ''Zm9v''"
    by (simp add: getBootstrapData_def exampleEnv_def exampleOwner_def EncodeToString_def
        encodeStd_def)
  show ?thesis
    using boot
      C10_providerID_parsing[of "exampleMachine (Some ''aws:///i-0123456789'')"
        "''aws:///i-0123456789''" ?cl]
      C10_providerID_parsing[of "exampleMachine (Some ''datacrunch://'')"
        "''datacrunch://''" ?cl exampleCluster exampleEnv exampleOwner "''Zm9v''"]
      C10_providerID_parsing[of "exampleMachine (Some '''')" "''''" ?cl]
    by (simp add: exampleMachine_def exampleStatus_def exampleCluster_def stubClient_def
        ContainsFinalizer_def)
qed

subsection \<open>The provider ID\<close>



subsection \<open>The observed instance state\<close>

text \<open>
  C5. When \<open>reconcileNormal\<close> observes an instance in state \<open>running\<close>, \<open>Ready\<close> becomes
  true, the \<open>InstanceReady\<close> condition is the true condition, and the addresses are
  replaced by: the hostname entry with the instance's name, then an \<open>InternalIP\<close> entry
  iff the private IP is not empty, then an \<open>ExternalIP\<close> entry iff the public IP is not
  empty. With private IP \<open>10.0.0.5\<close> and no public IP the list has exactly the two
  entries hostname and internal IP.
\<close>

theorem C5_running:
  assumes "inst \<in> set (observed (calls (reconcileNormal r newClient machine m cluster)))"
    and "inst_State inst = ''running''"
  shows "Ready (Status (obj (reconcileNormal r newClient machine m cluster))) = True \<and>
         Conditions (Status (obj (reconcileNormal r newClient machine m cluster)))
             InstanceReadyCondition = Some TrueCondition \<and>
         cond_Status TrueCondition = ConditionTrue \<and>
         Addresses (Status (obj (reconcileNormal r newClient machine m cluster))) =
           [\<lparr>addr_Type = MachineHostName, addr_Address = inst_Name inst\<rparr>] @
           (if inst_PrivateIP inst \<noteq> ''''
            then [\<lparr>addr_Type = MachineInternalIP, addr_Address = inst_PrivateIP inst\<rparr>] else []) @
           (if inst_PublicIP inst \<noteq> ''''
            then [\<lparr>addr_Type = MachineExternalIP, addr_Address = inst_PublicIP inst\<rparr>] else []) \<and>
         (inst_PrivateIP inst = ''10.0.0.5'' \<and> inst_PublicIP inst = '''' \<longrightarrow>
            Addresses (Status (obj (reconcileNormal r newClient machine m cluster))) =
              [\<lparr>addr_Type = ''Hostname'', addr_Address = inst_Name inst\<rparr>,
               \<lparr>addr_Type = ''InternalIP'', addr_Address = ''10.0.0.5''\<rparr>] \<and>
            length (Addresses (Status (obj (reconcileNormal r newClient machine m cluster)))) = 2)"
proof -
  from assms(1) obtain cl m0 cs es where
    "reconcileNormal r newClient machine m cluster = reconcileInstance cl inst m0 cs es"
    by (rule reconcileNormal_observes)
  then show ?thesis
    by (simp add: reconcileInstance_running[OF assms(2)] TrueCondition_def
        MachineHostName_def MachineInternalIP_def)
qed

theorem C5_running_witness:
  "exampleInstance ''running'' ''10.0.0.5'' ''''
     \<in> set (observed (calls (reconcileNormal exampleEnv
          (Inr (stubClient (exampleInstance ''running'' ''10.0.0.5'' ''''))) exampleOwner
          (exampleMachine (Some ''datacrunch://i-123'')) exampleCluster))) \<and>
   Ready (Status (obj (reconcileNormal exampleEnv
          (Inr (stubClient (exampleInstance ''running'' ''10.0.0.5'' ''''))) exampleOwner
          (exampleMachine (Some ''datacrunch://i-123'')) exampleCluster))) = True \<and>
   Addresses (Status (obj (reconcileNormal exampleEnv
          (Inr (stubClient (exampleInstance ''running'' ''10.0.0.5'' ''''))) exampleOwner
          (exampleMachine (Some ''datacrunch://i-123'')) exampleCluster))) =
     [\<lparr>addr_Type = ''Hostname'', addr_Address = ''test-machine''\<rparr>,
      \<lparr>addr_Type = ''InternalIP'', addr_Address = ''10.0.0.5''\<rparr>] \<and>
   exampleInstance ''running'' ''10.0.1.100'' ''192.168.1.100''
     \<in> set (observed (calls (reconcileNormal exampleEnv
          (Inr (stubClient (exampleInstance ''running'' ''10.0.1.100'' ''192.168.1.100'')))
          exampleOwner (exampleMachine None) exampleCluster))) \<and>
   Addresses (Status (obj (reconcileNormal exampleEnv
          (Inr (stubClient (exampleInstance ''running'' ''10.0.1.100'' ''192.168.1.100'')))
          exampleOwner (exampleMachine None) exampleCluster))) =
     [\<lparr>addr_Type = ''Hostname'', addr_Address = ''test-machine''\<rparr>,
      \<lparr>addr_Type = ''InternalIP'', addr_Address = ''10.0.1.100''\<rparr>,
      \<lparr>addr_Type = ''ExternalIP'', addr_Address = ''192.168.1.100''\<rparr>]"
proof -
  let ?i = "exampleInstance ''running'' ''10.0.0.5'' ''''"
  let ?j = "exampleInstance ''running'' ''10.0.1.100'' ''192.168.1.100''"
  have o1: "?i \<in> set (observed (calls (reconcileNormal exampleEnv (Inr (stubClient ?i))
                exampleOwner (exampleMachine (Some ''datacrunch://i-123'')) exampleCluster)))"
    by (simp add: example_defs reconcile_defs)
  have o2: "?j \<in> set (observed (calls (reconcileNormal exampleEnv (Inr (stubClient ?j))
                exampleOwner (exampleMachine None) exampleCluster)))"
    by (simp add: example_defs reconcile_defs)
  have s: "inst_State ?i = ''running''" "inst_State ?j = ''running''"
    by (simp_all add: exampleInstance_def)
  show ?thesis
    using o1 o2 C5_running[OF o1 s(1)] C5_running[OF o2 s(2)]
    by (simp add: exampleInstance_def MachineHostName_def MachineInternalIP_def
        MachineExternalIP_def)
qed




text \<open>
  C9. When \<open>reconcileNormal\<close> observes an instance in state \<open>stopped\<close>, its last call is
  \<open>StartInstance\<close> on that instance's ID, it returns a \<open>RequeueAfter\<close> of 30 seconds, and
  the error it returns is what \<open>StartInstance\<close> returned: nil on success, the error on
  failure. \<open>Ready\<close> is what it was before.
\<close>

theorem C9_stopped:
  assumes "inst \<in> set (observed (calls (reconcileNormal r newClient machine m cluster)))"
    and "inst_State inst = ''stopped''"
  shows "(\<exists>cs. calls (reconcileNormal r newClient machine m cluster) =
                cs @ [StartInstanceCall (inst_ID inst)
                        (err (reconcileNormal r newClient machine m cluster))]) \<and>
         (\<forall>cl. newClient = Inr cl \<longrightarrow>
            err (reconcileNormal r newClient machine m cluster) = StartInstance cl (inst_ID inst)) \<and>
         res (reconcileNormal r newClient machine m cluster) = requeueAfter30s \<and>
         RequeueAfter requeueAfter30s = 30 * 1000000000 \<and>
         Ready (Status (obj (reconcileNormal r newClient machine m cluster))) = Ready (Status m)"
proof -
  let ?out = "reconcileNormal r newClient machine m cluster"
  from assms(1) obtain cl m0 cs es where cl: "newClient = Inr cl"
    and out: "?out = reconcileInstance cl inst m0 cs es"
    and ready: "Ready (Status m0) = Ready (Status m)"
    by (rule reconcileNormal_observes)
  have "calls ?out = cs @ [StartInstanceCall (inst_ID inst) (err ?out)]"
    "err ?out = StartInstance cl (inst_ID inst)" "res ?out = requeueAfter30s"
    "Ready (Status (obj ?out)) = Ready (Status m)"
    using ready by (simp_all add: out reconcileInstance_stopped[OF assms(2)])
  moreover have "RequeueAfter requeueAfter30s = 30 * 1000000000"
    by (simp add: requeueAfter30s_def Second_def)
  ultimately show ?thesis using cl by blast
qed

theorem C9_stopped_witness:
  "exampleInstance ''stopped'' '''' ''''
     \<in> set (observed (calls (reconcileNormal exampleEnv
          (Inr (stubClient (exampleInstance ''stopped'' '''' ''''))) exampleOwner
          (exampleMachine (Some ''datacrunch://i-123'')) exampleCluster))) \<and>
   calls (reconcileNormal exampleEnv
          (Inr (stubClient (exampleInstance ''stopped'' '''' ''''))) exampleOwner
          (exampleMachine (Some ''datacrunch://i-123'')) exampleCluster) =
     [GetInstanceCall ''i-123'' (Inr (exampleInstance ''stopped'' '''' '''')),
      StartInstanceCall ''i-123'' None] \<and>
   err (reconcileNormal exampleEnv
          (Inr (stubClient (exampleInstance ''stopped'' '''' ''''))) exampleOwner
          (exampleMachine (Some ''datacrunch://i-123'')) exampleCluster) = None \<and>
   RequeueAfter (res (reconcileNormal exampleEnv
          (Inr (stubClient (exampleInstance ''stopped'' '''' ''''))) exampleOwner
          (exampleMachine (Some ''datacrunch://i-123'')) exampleCluster)) = 30000000000 \<and>
   exampleInstance ''stopped'' '''' ''''
     \<in> set (observed (calls (reconcileNormal exampleEnv
          (Inr (stuckClient (exampleInstance ''stopped'' '''' '''') ''failed to start instance, status: 500''))
          exampleOwner (exampleMachine (Some ''datacrunch://i-123'')) exampleCluster))) \<and>
   err (reconcileNormal exampleEnv
          (Inr (stuckClient (exampleInstance ''stopped'' '''' '''') ''failed to start instance, status: 500''))
          exampleOwner (exampleMachine (Some ''datacrunch://i-123'')) exampleCluster) =
     Some ''failed to start instance, status: 500'' \<and>
   RequeueAfter (res (reconcileNormal exampleEnv
          (Inr (stuckClient (exampleInstance ''stopped'' '''' '''') ''failed to start instance, status: 500''))
          exampleOwner (exampleMachine (Some ''datacrunch://i-123'')) exampleCluster)) = 30000000000 \<and>
   Ready (Status (obj (reconcileNormal exampleEnv
          (Inr (stuckClient (exampleInstance ''stopped'' '''' '''') ''failed to start instance, status: 500''))
          exampleOwner (exampleMachine (Some ''datacrunch://i-123'')) exampleCluster))) = False"
proof -
  let ?i = "exampleInstance ''stopped'' '''' ''''"
  let ?m = "exampleMachine (Some ''datacrunch://i-123'')"
  let ?stub = "stubClient ?i"
  let ?stuck = "stuckClient ?i ''failed to start instance, status: 500''"
  let ?out1 = "reconcileNormal exampleEnv (Inr ?stub) exampleOwner ?m exampleCluster"
  let ?out2 = "reconcileNormal exampleEnv (Inr ?stuck) exampleOwner ?m exampleCluster"
  have o1: "?i \<in> set (observed (calls ?out1))"
    by (simp add: example_defs reconcile_defs)
  have o2: "?i \<in> set (observed (calls ?out2))"
    by (simp add: example_defs reconcile_defs)
  have s: "inst_State ?i = ''stopped''"
    by (simp add: exampleInstance_def)
  have c: "calls ?out1 = [GetInstanceCall ''i-123'' (Inr ?i), StartInstanceCall ''i-123'' None]"
    by (simp add: example_defs reconcile_defs)
  have st1: "StartInstance ?stub (inst_ID ?i) = None"
    by (simp add: stubClient_def)
  have st2: "StartInstance ?stuck (inst_ID ?i) = Some ''failed to start instance, status: 500''"
    by (simp add: stuckClient_def)
  have rd: "Ready (Status ?m) = False"
    by (simp add: exampleMachine_def exampleStatus_def)
  note t1 = C9_stopped[OF o1 s] and t2 = C9_stopped[OF o2 s]
  from t1 have "err ?out1 = StartInstance ?stub (inst_ID ?i)" by blast
  with st1 have e1: "err ?out1 = None" by simp
  from t2 have "err ?out2 = StartInstance ?stuck (inst_ID ?i)" by blast
  with st2 have e2: "err ?out2 = Some ''failed to start instance, status: 500''" by simp
  from t1 have "res ?out1 = requeueAfter30s" "RequeueAfter requeueAfter30s = 30 * 1000000000"
    by blast+
  then have r1: "RequeueAfter (res ?out1) = 30000000000" by simp
  from t2 have "res ?out2 = requeueAfter30s" "RequeueAfter requeueAfter30s = 30 * 1000000000"
    by blast+
  then have r2: "RequeueAfter (res ?out2) = 30000000000" by simp
  from t2 rd have rd2: "Ready (Status (obj ?out2)) = False" by simp
  from o1 c e1 r1 o2 e2 r2 rd2 show ?thesis by blast
qed

subsection \<open>The cluster becomes ready\<close>

text \<open>
  C8. In the cluster reconciler's \<open>reconcileNormal\<close>, with any two sub-reconciliations in
  the places of \<open>reconcileNetwork\<close> and \<open>reconcileLoadBalancer\<close>: without the finalizer, or
  without a client, \<open>Ready\<close> is not written; when the network sub-reconciliation fails,
  or the load-balancer one after it, \<open>Ready\<close> is what that sub-reconciliation left, the
  error is returned with a \<open>RequeueAfter\<close> of 30 seconds and the condition is false with
  severity error; when both return no error, \<open>Ready\<close> is set and the network condition is
  true. With the two sub-reconciliations of the source, which never fail and never write
  \<open>Ready\<close>, \<open>Ready\<close> is set exactly when the finalizer is present and a client was
  created.
\<close>

theorem C8_cluster_ready:
  "(\<not> ContainsFinalizer (dcc_Finalizers c) ClusterFinalizer \<longrightarrow>
      dcc_Ready (dcc_Status (obj (cluster_reconcileNormal_body network loadBalancer newClient cluster c))) =
        dcc_Ready (dcc_Status c) \<and>
      res (cluster_reconcileNormal_body network loadBalancer newClient cluster c) = emptyResult \<and>
      err (cluster_reconcileNormal_body network loadBalancer newClient cluster c) = None) \<and>
   (ContainsFinalizer (dcc_Finalizers c) ClusterFinalizer \<and> newClient = Inl e \<longrightarrow>
      dcc_Ready (dcc_Status (obj (cluster_reconcileNormal_body network loadBalancer newClient cluster c))) =
        dcc_Ready (dcc_Status c) \<and>
      err (cluster_reconcileNormal_body network loadBalancer newClient cluster c) = Some e) \<and>
   (ContainsFinalizer (dcc_Finalizers c) ClusterFinalizer \<and> newClient = Inr cl \<and>
    network cl c = (c1, Some e) \<longrightarrow>
      dcc_Ready (dcc_Status (obj (cluster_reconcileNormal_body network loadBalancer newClient cluster c))) =
        dcc_Ready (dcc_Status c1) \<and>
      res (cluster_reconcileNormal_body network loadBalancer newClient cluster c) = requeueAfter30s \<and>
      err (cluster_reconcileNormal_body network loadBalancer newClient cluster c) = Some e \<and>
      dcc_Conditions (dcc_Status (obj (cluster_reconcileNormal_body network loadBalancer newClient cluster c)))
          NetworkInfrastructureReadyCondition =
        Some \<lparr>cond_Status = ConditionFalse, cond_Severity = ConditionSeverityError,
              cond_Reason = NetworkReconciliationFailedReason, cond_Message = Sprintf e []\<rparr>) \<and>
   (ContainsFinalizer (dcc_Finalizers c) ClusterFinalizer \<and> newClient = Inr cl \<and>
    network cl c = (c1, None) \<and> loadBalancer cl cluster c1 = (c2, Some e) \<longrightarrow>
      dcc_Ready (dcc_Status (obj (cluster_reconcileNormal_body network loadBalancer newClient cluster c))) =
        dcc_Ready (dcc_Status c2) \<and>
      res (cluster_reconcileNormal_body network loadBalancer newClient cluster c) = requeueAfter30s \<and>
      err (cluster_reconcileNormal_body network loadBalancer newClient cluster c) = Some e \<and>
      dcc_Conditions (dcc_Status (obj (cluster_reconcileNormal_body network loadBalancer newClient cluster c)))
          LoadBalancerReadyCondition =
        Some \<lparr>cond_Status = ConditionFalse, cond_Severity = ConditionSeverityError,
              cond_Reason = LoadBalancerReconciliationFailedReason, cond_Message = Sprintf e []\<rparr>) \<and>
   (ContainsFinalizer (dcc_Finalizers c) ClusterFinalizer \<and> newClient = Inr cl \<and>
    network cl c = (c1, None) \<and> loadBalancer cl cluster c1 = (c2, None) \<longrightarrow>
      dcc_Ready (dcc_Status (obj (cluster_reconcileNormal_body network loadBalancer newClient cluster c))) = True \<and>
      dcc_Conditions (dcc_Status (obj (cluster_reconcileNormal_body network loadBalancer newClient cluster c)))
          NetworkInfrastructureReadyCondition = Some TrueCondition \<and>
      res (cluster_reconcileNormal_body network loadBalancer newClient cluster c) = emptyResult \<and>
      err (cluster_reconcileNormal_body network loadBalancer newClient cluster c) = None) \<and>
   RequeueAfter requeueAfter30s = 30 * 1000000000 \<and>
   (ContainsFinalizer (dcc_Finalizers c) ClusterFinalizer \<and> newClient = Inr cl \<longrightarrow>
      dcc_Ready (dcc_Status (obj (cluster_reconcileNormal newClient cluster c))) = True \<and>
      err (cluster_reconcileNormal newClient cluster c) = None) \<and>
   (\<not> ContainsFinalizer (dcc_Finalizers c) ClusterFinalizer \<or> newClient = Inl e \<longrightarrow>
      dcc_Ready (dcc_Status (obj (cluster_reconcileNormal newClient cluster c))) =
        dcc_Ready (dcc_Status c))"
proof -
  have real: "ContainsFinalizer (dcc_Finalizers c) ClusterFinalizer \<and> newClient = Inr cl \<longrightarrow>
      dcc_Ready (dcc_Status (obj (cluster_reconcileNormal newClient cluster c))) = True \<and>
      err (cluster_reconcileNormal newClient cluster c) = None"
    by (simp add: cluster_reconcileNormal_def cluster_reconcileNormal_body_def
        reconcileNetwork_def reconcileLoadBalancer_def Let_def dcc_MarkTrue_def)
  have real': "\<not> ContainsFinalizer (dcc_Finalizers c) ClusterFinalizer \<or> newClient = Inl e \<longrightarrow>
      dcc_Ready (dcc_Status (obj (cluster_reconcileNormal newClient cluster c))) =
        dcc_Ready (dcc_Status c)"
    by (auto simp: cluster_reconcileNormal_def cluster_reconcileNormal_body_def dcc_MarkFalse_def)
  have rq: "RequeueAfter requeueAfter30s = 30 * 1000000000"
    by (simp add: requeueAfter30s_def Second_def)
  show ?thesis
    using real real' rq
    by (simp add: cluster_reconcileNormal_body_def dcc_MarkFalse_def dcc_MarkTrue_def
        FalseCondition_def)
qed

theorem C8_cluster_ready_witness:
  "ContainsFinalizer (dcc_Finalizers exampleDataCrunchCluster) ClusterFinalizer \<and>
   dcc_Ready (dcc_Status exampleDataCrunchCluster) = False \<and>
   dcc_Ready (dcc_Status (obj (cluster_reconcileNormal_body reconcileNetwork reconcileLoadBalancer
       (Inr (stubClient (exampleInstance ''running'' '''' ''''))) exampleCluster
       (exampleDataCrunchCluster\<lparr>dcc_Finalizers := []\<rparr>)))) = False \<and>
   dcc_Ready (dcc_Status (obj (cluster_reconcileNormal_body (failingNetwork ''no network'')
       reconcileLoadBalancer (Inr (stubClient (exampleInstance ''running'' '''' '''')))
       exampleCluster exampleDataCrunchCluster))) = False \<and>
   err (cluster_reconcileNormal_body (failingNetwork ''no network'')
       reconcileLoadBalancer (Inr (stubClient (exampleInstance ''running'' '''' '''')))
       exampleCluster exampleDataCrunchCluster) = Some ''no network'' \<and>
   RequeueAfter (res (cluster_reconcileNormal_body (failingNetwork ''no network'')
       reconcileLoadBalancer (Inr (stubClient (exampleInstance ''running'' '''' '''')))
       exampleCluster exampleDataCrunchCluster)) = 30000000000 \<and>
   dcc_Ready (dcc_Status (obj (cluster_reconcileNormal_body reconcileNetwork
       (failingLoadBalancer ''not implemented'')
       (Inr (stubClient (exampleInstance ''running'' '''' '''')))
       exampleCluster exampleDataCrunchCluster))) = False \<and>
   err (cluster_reconcileNormal_body reconcileNetwork
       (failingLoadBalancer ''not implemented'')
       (Inr (stubClient (exampleInstance ''running'' '''' '''')))
       exampleCluster exampleDataCrunchCluster) = Some ''not implemented'' \<and>
   RequeueAfter (res (cluster_reconcileNormal_body reconcileNetwork
       (failingLoadBalancer ''not implemented'')
       (Inr (stubClient (exampleInstance ''running'' '''' '''')))
       exampleCluster exampleDataCrunchCluster)) = 30000000000 \<and>
   dcc_Ready (dcc_Status (obj (cluster_reconcileNormal
       (Inr (stubClient (exampleInstance ''running'' '''' ''''))) exampleCluster
       exampleDataCrunchCluster))) = True \<and>
   dcc_Ready (dcc_Status (obj (cluster_reconcileNormal (Inl ''no credentials'') exampleCluster
       exampleDataCrunchCluster))) = False"
proof -
  let ?cl = "stubClient (exampleInstance ''running'' '''' '''')"
  let ?c = exampleDataCrunchCluster
  let ?bare = "exampleDataCrunchCluster\<lparr>dcc_Finalizers := []\<rparr>"
  define c1 where "c1 = fst (reconcileNetwork ?cl ?c)"
  have c1: "reconcileNetwork ?cl ?c = (c1, None)"
    using reconcileNetwork_Ready[of ?cl ?c] by (simp add: c1_def prod_eq_iff)
  have r1: "dcc_Ready (dcc_Status c1) = False"
    using c1 reconcileNetwork_Ready[of ?cl ?c] by (simp add: exampleDataCrunchCluster_def)
  have fin: "ContainsFinalizer (dcc_Finalizers ?c) ClusterFinalizer"
    "\<not> ContainsFinalizer (dcc_Finalizers ?bare) ClusterFinalizer"
    by (simp_all add: ContainsFinalizer_def exampleDataCrunchCluster_def)
  have rd: "dcc_Ready (dcc_Status ?c) = False" "dcc_Ready (dcc_Status ?bare) = False"
    by (simp_all add: exampleDataCrunchCluster_def)
  have fn: "failingNetwork ''no network'' ?cl ?c = (?c, Some ''no network'')"
    by (simp add: failingNetwork_def)
  have fl: "failingLoadBalancer ''not implemented'' ?cl exampleCluster c1 =
              (c1, Some ''not implemented'')"
    by (simp add: failingLoadBalancer_def)
  note t0 = C8_cluster_ready[of ?bare reconcileNetwork reconcileLoadBalancer "Inr ?cl" exampleCluster]
  note t1 = C8_cluster_ready[of ?c "failingNetwork ''no network''" reconcileLoadBalancer
              "Inr ?cl" exampleCluster "''no network''" ?cl ?c]
  note t2 = C8_cluster_ready[of ?c reconcileNetwork "failingLoadBalancer ''not implemented''"
              "Inr ?cl" exampleCluster "''not implemented''" ?cl c1 c1]
  note t3 = C8_cluster_ready[of ?c reconcileNetwork reconcileLoadBalancer
              "Inr ?cl" exampleCluster "''''" ?cl]
  note t4 = C8_cluster_ready[of ?c reconcileNetwork reconcileLoadBalancer
              "Inl ''no credentials''" exampleCluster "''no credentials''" ?cl]
  from t0 fin rd have a: "dcc_Ready (dcc_Status (obj (cluster_reconcileNormal_body
       reconcileNetwork reconcileLoadBalancer (Inr ?cl) exampleCluster ?bare))) = False"
    by simp
  from t1 fin fn rd have b: "dcc_Ready (dcc_Status (obj (cluster_reconcileNormal_body
         (failingNetwork ''no network'') reconcileLoadBalancer (Inr ?cl) exampleCluster ?c))) = False"
    "err (cluster_reconcileNormal_body
         (failingNetwork ''no network'') reconcileLoadBalancer (Inr ?cl) exampleCluster ?c) =
       Some ''no network''"
    "RequeueAfter (res (cluster_reconcileNormal_body
         (failingNetwork ''no network'') reconcileLoadBalancer (Inr ?cl) exampleCluster ?c)) =
       30000000000"
    by simp_all
  from t2 fin c1 fl r1 have c: "dcc_Ready (dcc_Status (obj (cluster_reconcileNormal_body
         reconcileNetwork (failingLoadBalancer ''not implemented'') (Inr ?cl) exampleCluster ?c))) =
       False"
    "err (cluster_reconcileNormal_body
         reconcileNetwork (failingLoadBalancer ''not implemented'') (Inr ?cl) exampleCluster ?c) =
       Some ''not implemented''"
    "RequeueAfter (res (cluster_reconcileNormal_body
         reconcileNetwork (failingLoadBalancer ''not implemented'') (Inr ?cl) exampleCluster ?c)) =
       30000000000"
    by simp_all
  from t3 fin have d: "dcc_Ready (dcc_Status (obj (cluster_reconcileNormal (Inr ?cl)
       exampleCluster ?c))) = True"
    by simp
  from t4 rd have e: "dcc_Ready (dcc_Status (obj (cluster_reconcileNormal
       (Inl ''no credentials'') exampleCluster ?c))) = False"
    by simp
  from fin(1) rd(1) a b c d e show ?thesis by blast
qed

end
